theory Spec2Isabelle
  imports Main
begin

section \<open>Data model of the deployment orchestrator\<close>

text \<open>
  The orchestrator is the module with \<open>deployStack\<close>, \<open>getStackOutputs\<close>,
  \<open>makeBodyParameter\<close> and \<open>destroyStack\<close>. JavaScript strings are modelled as
  \<open>string\<close>, one \<open>char\<close> for each code unit, so that \<open>length\<close> is the
  \<open>.length\<close> property the code reads. Values the code only passes on (the template
  document, the stack metadata, the entries of a change list) are JSON documents.
\<close>

datatype json =
    JNull
  | JBool bool
  | JNumber int
  | JString string
  | JArray "json list"
  | JObject "(string \<times> json) list"

text \<open>A thrown \<open>Error\<close> (or a rejected promise), with its message.\<close>

datatype error = Error string

datatype Mode = ForReading | ForWriting

record Environment =
  env_name :: string
  account :: string
  region :: string

text \<open>
  \<open>cxapi.SynthesizedStack\<close>. The declared type of \<open>environment\<close> is not optional, but
  both entry points test it, so it is optional here.
\<close>

record SynthesizedStack =
  name :: string
  environment :: "Environment option"
  template :: json
  metadata :: json

record ToolkitInfo =
  bucketUrl :: string

record UploadProps =
  s3KeyPrefix :: string
  s3KeySuffix :: string
  contentType :: string

record Uploaded =
  key :: string
  changed :: bool

record Parameter =
  ParameterKey :: "string option"
  ParameterValue :: "string option"

record Output =
  OutputKey :: "string option"
  OutputValue :: "string option"

text \<open>\<open>aws.CloudFormation.Stack\<close>, the fields the orchestrator and its callers read.\<close>

record Stack =
  StackName :: string
  StackStatus :: string
  StackStatusReason :: "string option"
  Outputs :: "Output list option"

record DescribeChangeSetOutput =
  Changes :: "json list option"

record CreateChangeSetInput =
  cs_StackName :: string
  cs_ChangeSetName :: string
  cs_ChangeSetType :: string
  cs_Description :: string
  cs_TemplateBody :: "string option"
  cs_TemplateURL :: "string option"
  cs_Parameters :: "Parameter list"
  cs_RoleARN :: "string option"
  cs_Capabilities :: "string list"

record CreateChangeSetOutput =
  Id :: "string option"
  StackId :: "string option"

record DeleteStackInput =
  ds_StackName :: string
  ds_RoleARN :: "string option"

record TemplateBodyParameter =
  TemplateBody :: "string option"
  TemplateURL :: "string option"

text \<open>
  \<open>DeployStackResult\<close>. The source fills \<open>stackArn\<close> with \<open>changeSet.StackId!\<close> and
  each output with \<open>output.OutputValue!\<close>; the non-null assertion is erased when the
  program runs, so an absent value stays absent.
\<close>

record DeployStackResult =
  noOp :: bool
  outputs :: "string \<rightharpoonup> string option"
  stackArn :: "string option"

text \<open>
  \<open>DestroyStackOptions\<close>, and \<open>DeployStackOptions\<close>, which has the same fields and
  \<open>toolkitInfo\<close>. The \<open>sdk\<close> field is the environment record \<open>Env\<close> below.
\<close>

record DestroyStackOptions =
  stack :: SynthesizedStack
  roleArn :: "string option"
  deployName :: "string option"
  quiet :: "bool option"

record DeployStackOptions = DestroyStackOptions +
  toolkitInfo :: "ToolkitInfo option"

section \<open>Effects: the calls a run makes, in order\<close>

text \<open>
  Every call that leaves the module is recorded with its arguments and with what it gave
  back (\<open>Inl\<close> a rejection, \<open>Inr\<close> the value). \<open>debug\<close> lines are not recorded: they
  only write to the diagnostic log.
\<close>

datatype event =
    EvPrepareAssets "error + Parameter list"
  | EvUuid string
  | EvCloudFormation Environment Mode "error option"
  | EvUploadIfChanged string UploadProps "error + Uploaded"
  | EvLogError "string list"
  | EvStackFailedCreating string "error + bool"
  | EvDeleteStack DeleteStackInput "error + unit"
  | EvWaitForStack string "bool option" "error + Stack option"
  | EvStackExists string "error + bool"
  | EvCreateChangeSet CreateChangeSetInput "error + CreateChangeSetOutput"
  | EvWaitForChangeSet string string "error + DescribeChangeSetOutput option"
  | EvDeleteChangeSet string string "error + unit"
  | EvDescribeStack string "error + Stack option"
  | EvExecuteChangeSet string string "error + unit"
  | EvMonitorStart string "json option" "nat option"
  | EvMonitorStop

text \<open>
  The collaborators that are imported from other modules: the asset preparer, the client
  factory of the SDK, the YAML serializer, the uploader of the toolkit, the CloudFormation
  client's methods and the helpers of \<open>./util/cloudformation\<close>. Each one is a parameter; a
  call takes the state of the outside world \<open>'w\<close> and gives back its answer and the new
  state. \<open>'c\<close> is the client handle. Every awaited call is taken to settle.
  \<open>StackStatus_toString\<close> is what the template literal prints for
  \<open>StackStatus.fromStackDescription(stack)\<close>, and \<open>colors_blue\<close> is \<open>colors.blue\<close> of the
  package \<open>colors/safe\<close>, whatever it adds to its argument.
\<close>

record ('c, 'w) Env =
  prepareAssets :: "SynthesizedStack \<Rightarrow> ToolkitInfo option \<Rightarrow> 'w \<Rightarrow> (error + Parameter list) \<times> 'w"
  uuid_v4 :: "'w \<Rightarrow> string \<times> 'w"
  sdk_cloudFormation :: "Environment \<Rightarrow> Mode \<Rightarrow> 'w \<Rightarrow> (error + 'c) \<times> 'w"
  YAML_safeDump :: "json \<Rightarrow> error + string"
  uploadIfChanged :: "ToolkitInfo \<Rightarrow> string \<Rightarrow> UploadProps \<Rightarrow> 'w \<Rightarrow> (error + Uploaded) \<times> 'w"
  stackFailedCreating :: "'c \<Rightarrow> string \<Rightarrow> 'w \<Rightarrow> (error + bool) \<times> 'w"
  cfn_deleteStack :: "'c \<Rightarrow> DeleteStackInput \<Rightarrow> 'w \<Rightarrow> (error + unit) \<times> 'w"
  waitForStack :: "'c \<Rightarrow> string \<Rightarrow> bool option \<Rightarrow> 'w \<Rightarrow> (error + Stack option) \<times> 'w"
  stackExists :: "'c \<Rightarrow> string \<Rightarrow> 'w \<Rightarrow> (error + bool) \<times> 'w"
  cfn_createChangeSet :: "'c \<Rightarrow> CreateChangeSetInput \<Rightarrow> 'w \<Rightarrow> (error + CreateChangeSetOutput) \<times> 'w"
  waitForChangeSet :: "'c \<Rightarrow> string \<Rightarrow> string \<Rightarrow> 'w \<Rightarrow> (error + DescribeChangeSetOutput option) \<times> 'w"
  cfn_deleteChangeSet :: "'c \<Rightarrow> string \<Rightarrow> string \<Rightarrow> 'w \<Rightarrow> (error + unit) \<times> 'w"
  cfn_executeChangeSet :: "'c \<Rightarrow> string \<Rightarrow> string \<Rightarrow> 'w \<Rightarrow> (error + unit) \<times> 'w"
  describeStack :: "'c \<Rightarrow> string \<Rightarrow> 'w \<Rightarrow> (error + Stack option) \<times> 'w"
  StackStatus_toString :: "Stack \<Rightarrow> string"
  colors_blue :: "string \<Rightarrow> string"

text \<open>
  An asynchronous function is a computation on the world and the trace that ends with a
  value or a thrown error; \<open>bnd\<close> is \<open>await\<close> followed by the rest of the body.
\<close>

type_synonym ('w, 'a) prog = "'w \<times> event list \<Rightarrow> (error + 'a) \<times> 'w \<times> event list"

definition ret :: "'a \<Rightarrow> ('w, 'a) prog" where
  "ret x = (\<lambda>s. (Inr x, s))"

definition throw :: "error \<Rightarrow> ('w, 'a) prog" where
  "throw e = (\<lambda>s. (Inl e, s))"

definition bnd :: "('w, 'a) prog \<Rightarrow> ('a \<Rightarrow> ('w, 'b) prog) \<Rightarrow> ('w, 'b) prog" where
  "bnd m f = (\<lambda>s. case m s of (Inl e, s') \<Rightarrow> (Inl e, s') | (Inr x, s') \<Rightarrow> f x s')"

definition emit :: "event \<Rightarrow> ('w, unit) prog" where
  "emit ev = (\<lambda>(w, tr). (Inr (), (w, tr @ [ev])))"

definition call :: "('w \<Rightarrow> (error + 'a) \<times> 'w) \<Rightarrow> ((error + 'a) \<Rightarrow> event) \<Rightarrow> ('w, 'a) prog" where
  "call f ev = (\<lambda>(w, tr). case f w of (r, w') \<Rightarrow> (r, (w', tr @ [ev r])))"

definition fresh :: "('w \<Rightarrow> string \<times> 'w) \<Rightarrow> ('w, string) prog" where
  "fresh f = (\<lambda>(w, tr). case f w of (u, w') \<Rightarrow> (Inr u, (w', tr @ [EvUuid u])))"

definition failure :: "error + 'a \<Rightarrow> error option" where
  "failure r = (case r of Inl e \<Rightarrow> Some e | Inr _ \<Rightarrow> None)"

section \<open>JavaScript operators the code relies on\<close>

text \<open>\<open>a || b\<close> on an optional string: the empty string and \<open>undefined\<close> are falsy.\<close>

definition js_or :: "string option \<Rightarrow> string \<Rightarrow> string" where
  "js_or a b = (case a of None \<Rightarrow> b | Some s \<Rightarrow> if s = [] then b else s)"

text \<open>Truthiness of an optional boolean (\<open>options.quiet\<close>).\<close>

definition truthy :: "bool option \<Rightarrow> bool" where
  "truthy q = (case q of None \<Rightarrow> False | Some b \<Rightarrow> b)"

text \<open>
  The size of a string in bytes, as UTF-8: a code unit below 128 takes one byte, a code
  unit from 128 to 255 two. (A \<open>char\<close> holds a code unit below 256.)
\<close>

definition utf8_length :: "string \<Rightarrow> nat" where
  "utf8_length s = sum_list (map (\<lambda>c. if of_char c < (128::nat) then 1 else 2) s)"

text \<open>A natural number printed in decimal, as a template literal prints it.\<close>

fun show_nat :: "nat \<Rightarrow> string" where
  "show_nat n =
     (if n < 10 then [char_of (48 + n)]
      else show_nat (n div 10) @ [char_of (48 + n mod 10)])"

declare show_nat.simps [simp del]

text \<open>
  \<open>Math.round(n / 1024)\<close> for a length \<open>n\<close>: the quotient is exact in floating point, and
  a half is rounded up.
\<close>

definition round_div_1024 :: "nat \<Rightarrow> nat" where
  "round_div_1024 n = (n + 512) div 1024"

text \<open>
  \<open>result[k] = v\<close> on an object literal, where \<open>k\<close> and \<open>v\<close> may be \<open>undefined\<close>: an
  absent key is the property \<open>undefined\<close>, and an assignment of a string or of
  \<open>undefined\<close> to \<open>__proto__\<close> is ignored.
\<close>

definition set_output :: "(string \<rightharpoonup> string option) \<Rightarrow> Output \<Rightarrow> (string \<rightharpoonup> string option)" where
  "set_output result output =
     (let k = (case OutputKey output of None \<Rightarrow> ''undefined'' | Some s \<Rightarrow> s)
      in if k = ''__proto__'' then result else result(k \<mapsto> OutputValue output))"

section \<open>The activity monitor\<close>

text \<open>
  Modelled from the spec: the class \<open>StackActivityMonitor\<close> of
  \<open>./util/cloudformation/stack-activity-monitor\<close> is not among the sources. The spec has
  the monitor run beside the polling as an independent activity that only reports, and
  has its absence change nothing but what is observed. So
  \<open>new StackActivityMonitor(cfn, stackName, metadata, resourcesTotal).start()\<close> is recorded
  in the trace, does not fail and leaves the world as it is.
\<close>

definition monitor_start :: "string \<Rightarrow> json option \<Rightarrow> nat option \<Rightarrow> ('w, unit) prog" where
  "monitor_start stackName md resourcesTotal = emit (EvMonitorStart stackName md resourcesTotal)"

text \<open>
  Modelled from the spec: \<open>monitor.stop()\<close> of the same class, which the spec has stop
  the reporting and nothing else. It is recorded in the trace, does not fail and leaves the
  world as it is.
\<close>

definition monitor_stop :: "('w, unit) prog" where
  "monitor_stop = emit EvMonitorStop"

section \<open>Messages and request objects\<close>

text \<open>The template literals of the module, each under a name of its own.\<close>

definition no_environment_message :: "string \<Rightarrow> string" where
  "no_environment_message stackName =
     ''The stack '' @ stackName @ '' does not have an environment''"

definition failed_deleting_message :: "string \<Rightarrow> string \<Rightarrow> string" where
  "failed_deleting_message dn status =
     ''Failed deleting stack '' @ dn @
     '' that had previously failed creation (current state: '' @ status @ '')''"

definition failed_to_destroy_message :: "string \<Rightarrow> string \<Rightarrow> string" where
  "failed_to_destroy_message dn status =
     ''Failed to destroy '' @ dn @ '': '' @ status"

definition template_too_large :: string where
  \<open>template_too_large = ''Template too large to deploy ("cdk bootstrap" is required)''\<close>

text \<open>
  The threshold of \<open>makeBodyParameter\<close> is \<open>LARGE_TEMPLATE_SIZE_KB * 1024\<close>, that is
  51200, compared with \<open>templateJson.length\<close>; the comment above the function says
  50,200 bytes.
\<close>

definition LARGE_TEMPLATE_SIZE_KB :: nat where
  "LARGE_TEMPLATE_SIZE_KB = 50"

text \<open>
  The two arguments of the \<open>error(...)\<close> line in \<open>makeBodyParameter\<close>. The second one is
  passed through \<open>colors.blue\<close>, here the parameter \<open>blue\<close>.
\<close>

definition too_large_log :: "(string \<Rightarrow> string) \<Rightarrow> string \<Rightarrow> nat \<Rightarrow> string \<Rightarrow> string list" where
  \<open>too_large_log blue stackName len envName =
     [''The template for stack "'' @ stackName @ ''" is '' @
        show_nat (round_div_1024 len) @ ''KiB. '' @
      ''Templates larger than '' @ show_nat LARGE_TEMPLATE_SIZE_KB @
        ''KiB must be uploaded to S3.'' @ [CHR 0x0A] @
      ''Run the following command in order to setup an S3 bucket in this environment, and then re-deploy:'' @
        [CHR 0x0A, CHR 0x0A],
      blue ([CHR 0x09] @ ''$ cdk bootstrap '' @ envName @ [CHR 0x0A])]\<close>

text \<open>Reading \<open>stack.environment!.name\<close> when the environment is absent.\<close>

definition name_of_undefined :: string where
  "name_of_undefined = ''Cannot read property 'name' of undefined''"

definition uploadProps :: "string \<Rightarrow> UploadProps" where
  "uploadProps stackName =
     \<lparr>s3KeyPrefix = ''cdk/'' @ stackName @ ''/'', s3KeySuffix = ''.yml'',
      contentType = ''application/x-yaml''\<rparr>"

definition changeSetName_of :: "string \<Rightarrow> string" where
  "changeSetName_of executionId = ''CDK-'' @ executionId"

text \<open>The object literal that \<open>deployStack\<close> passes to \<open>cfn.createChangeSet\<close>.\<close>

definition changeSetRequest ::
  "string \<Rightarrow> string \<Rightarrow> bool \<Rightarrow> TemplateBodyParameter \<Rightarrow> Parameter list \<Rightarrow> string option
     \<Rightarrow> CreateChangeSetInput" where
  "changeSetRequest dn executionId update bodyParameter params roleARN =
     \<lparr>cs_StackName = dn,
      cs_ChangeSetName = changeSetName_of executionId,
      cs_ChangeSetType = (if update then ''UPDATE'' else ''CREATE''),
      cs_Description = ''CDK Changeset for execution '' @ executionId,
      cs_TemplateBody = TemplateBody bodyParameter,
      cs_TemplateURL = TemplateURL bodyParameter,
      cs_Parameters = params,
      cs_RoleARN = roleARN,
      cs_Capabilities = [''CAPABILITY_IAM'', ''CAPABILITY_NAMED_IAM'']\<rparr>"

definition deleteStackInput :: "string \<Rightarrow> string option \<Rightarrow> DeleteStackInput" where
  "deleteStackInput dn roleARN = \<lparr>ds_StackName = dn, ds_RoleARN = roleARN\<rparr>"

section \<open>The orchestrator\<close>

text \<open>
  The object that \<open>getStackOutputs\<close> fills from a stack description: empty when the
  description or its \<open>Outputs\<close> is absent, otherwise one assignment for each output, in
  order.
\<close>

definition outputs_of :: "Stack option \<Rightarrow> (string \<rightharpoonup> string option)" where
  "outputs_of description =
     (case description of
        None \<Rightarrow> Map.empty
      | Some d \<Rightarrow> (case Outputs d of
                    None \<Rightarrow> Map.empty
                  | Some os \<Rightarrow> foldl set_output Map.empty os))"

definition getStackOutputs :: "('c, 'w) Env \<Rightarrow> 'c \<Rightarrow> string \<Rightarrow> ('w, string \<rightharpoonup> string option) prog" where
  "getStackOutputs E cfn stackName =
     bnd (call (describeStack E cfn stackName) (EvDescribeStack stackName)) (\<lambda>description.
     ret (outputs_of description))"

definition makeBodyParameter ::
  "('c, 'w) Env \<Rightarrow> SynthesizedStack \<Rightarrow> ToolkitInfo option \<Rightarrow> ('w, TemplateBodyParameter) prog" where
  "makeBodyParameter E stk tk =
     (case YAML_safeDump E (template stk) of
        Inl e \<Rightarrow> throw e
      | Inr templateJson \<Rightarrow>
         (case tk of
            Some toolkit \<Rightarrow>
              bnd (call (uploadIfChanged E toolkit templateJson (uploadProps (name stk)))
                        (EvUploadIfChanged templateJson (uploadProps (name stk)))) (\<lambda>up.
              let templateURL = bucketUrl toolkit @ ''/'' @ key up
              in ret \<lparr>TemplateBody = None, TemplateURL = Some templateURL\<rparr>)
          | None \<Rightarrow>
              if length templateJson > LARGE_TEMPLATE_SIZE_KB * 1024 then
                (case environment stk of
                   None \<Rightarrow> throw (Error name_of_undefined)
                 | Some env \<Rightarrow>
                     bnd (emit (EvLogError
                            (too_large_log (colors_blue E) (name stk) (length templateJson)
                               (env_name env)))) (\<lambda>_.
                     throw (Error template_too_large)))
              else ret \<lparr>TemplateBody = Some templateJson, TemplateURL = None\<rparr>))"

text \<open>
  The test \<open>!changeSetDescription || !changeSetDescription.Changes ||
  changeSetDescription.Changes.length === 0\<close>, and \<open>changeSetDescription.Changes.length\<close>
  as the monitor is given it; the latter is only read where the test has failed, so where
  the list is there.
\<close>

definition no_changes :: "DescribeChangeSetOutput option \<Rightarrow> bool" where
  "no_changes d =
     (case d of
        None \<Rightarrow> True
      | Some csd \<Rightarrow> (case Changes csd of None \<Rightarrow> True | Some chs \<Rightarrow> length chs = 0))"

definition changes_length :: "DescribeChangeSetOutput option \<Rightarrow> nat" where
  "changes_length d =
     (case d of
        None \<Rightarrow> 0
      | Some csd \<Rightarrow> (case Changes csd of None \<Rightarrow> 0 | Some chs \<Rightarrow> length chs))"

text \<open>
  \<open>deployStack\<close>, statement by statement. The variable \<open>monitor\<close> is \<open>undefined\<close> or
  the started monitor; the model keeps whether it is there.
\<close>

definition deployStack :: "('c, 'w) Env \<Rightarrow> DeployStackOptions \<Rightarrow> ('w, DeployStackResult) prog" where
  "deployStack E options =
     (case environment (stack options) of
        None \<Rightarrow>
          throw (Error (no_environment_message (name (stack options))))
      | Some env \<Rightarrow>
     bnd (call (prepareAssets E (stack options) (toolkitInfo options)) EvPrepareAssets) (\<lambda>params.
     let deployName = js_or (deployName options) (name (stack options)) in
     bnd (fresh (uuid_v4 E)) (\<lambda>executionId.
     bnd (call (sdk_cloudFormation E env ForWriting)
               (\<lambda>r. EvCloudFormation env ForWriting (failure r))) (\<lambda>cfn.
     bnd (makeBodyParameter E (stack options) (toolkitInfo options)) (\<lambda>bodyParameter.
     bnd (call (stackFailedCreating E cfn deployName) (EvStackFailedCreating deployName)) (\<lambda>failed.
     bnd (if failed then
            bnd (call (cfn_deleteStack E cfn (deleteStackInput deployName None))
                      (EvDeleteStack (deleteStackInput deployName None))) (\<lambda>_.
            bnd (call (waitForStack E cfn deployName (Some False))
                      (EvWaitForStack deployName (Some False))) (\<lambda>deletedStack.
            case deletedStack of
              None \<Rightarrow> ret ()
            | Some d \<Rightarrow>
                if StackStatus d \<noteq> ''DELETE_COMPLETE'' then
                  throw (Error (failed_deleting_message deployName (StackStatus d)))
                else ret ()))
          else ret ()) (\<lambda>_.
     bnd (call (stackExists E cfn deployName) (EvStackExists deployName)) (\<lambda>update.
     let changeSetName = changeSetName_of executionId;
         request = changeSetRequest deployName executionId update bodyParameter params
                     (roleArn options) in
     bnd (call (cfn_createChangeSet E cfn request) (EvCreateChangeSet request)) (\<lambda>changeSet.
     bnd (call (waitForChangeSet E cfn deployName changeSetName)
               (EvWaitForChangeSet deployName changeSetName)) (\<lambda>changeSetDescription.
     if no_changes changeSetDescription then
       bnd (call (cfn_deleteChangeSet E cfn deployName changeSetName)
                 (EvDeleteChangeSet deployName changeSetName)) (\<lambda>_.
       bnd (getStackOutputs E cfn deployName) (\<lambda>outs.
       ret \<lparr>noOp = True, outputs = outs, stackArn = StackId changeSet\<rparr>))
     else
       bnd (call (cfn_executeChangeSet E cfn deployName changeSetName)
                 (EvExecuteChangeSet deployName changeSetName)) (\<lambda>_.
       bnd (if truthy (quiet options) then ret False
            else bnd (monitor_start deployName (Some (metadata (stack options)))
                        (Some (changes_length changeSetDescription))) (\<lambda>_. ret True)) (\<lambda>monitor.
       bnd (call (waitForStack E cfn deployName None) (EvWaitForStack deployName None)) (\<lambda>_.
       bnd (if monitor then monitor_stop else ret ()) (\<lambda>_.
       bnd (getStackOutputs E cfn deployName) (\<lambda>outs.
       ret \<lparr>noOp = False, outputs = outs, stackArn = StackId changeSet\<rparr>)))))))))))))))"

text \<open>
  In \<open>destroyStack\<close> the handler \<open>.catch(e => { throw e; })\<close> on \<open>deleteStack\<close> throws
  what it caught, so a rejection is passed on as it is.
\<close>

definition destroyStack :: "('c, 'w) Env \<Rightarrow> DestroyStackOptions \<Rightarrow> ('w, unit) prog" where
  "destroyStack E options =
     (case environment (stack options) of
        None \<Rightarrow>
          throw (Error (no_environment_message (name (stack options))))
      | Some env \<Rightarrow>
     let deployName = js_or (deployName options) (name (stack options)) in
     bnd (call (sdk_cloudFormation E env ForWriting)
               (\<lambda>r. EvCloudFormation env ForWriting (failure r))) (\<lambda>cfn.
     bnd (call (stackExists E cfn deployName) (EvStackExists deployName)) (\<lambda>ex.
     if \<not> ex then ret ()
     else
       bnd (if truthy (quiet options) then ret False
            else bnd (monitor_start deployName None None) (\<lambda>_. ret True)) (\<lambda>monitor.
       bnd (call (cfn_deleteStack E cfn (deleteStackInput deployName (roleArn options)))
                 (EvDeleteStack (deleteStackInput deployName (roleArn options)))) (\<lambda>_.
       bnd (call (waitForStack E cfn deployName (Some False))
                 (EvWaitForStack deployName (Some False))) (\<lambda>destroyedStack.
       bnd (if monitor then monitor_stop else ret ()) (\<lambda>_.
       case destroyedStack of
         None \<Rightarrow> ret ()
       | Some d \<Rightarrow>
           if StackStatus d \<noteq> ''DELETE_COMPLETE'' then
             throw (Error (failed_to_destroy_message deployName (StackStatus_toString E d)))
           else ret ())))))))"

text \<open>A run starts with an empty trace; its outcome, its calls, and the world it leaves.\<close>

definition deploy_result :: "('c, 'w) Env \<Rightarrow> DeployStackOptions \<Rightarrow> 'w \<Rightarrow> error + DeployStackResult" where
  "deploy_result E options w = fst (deployStack E options (w, []))"

definition deploy_world :: "('c, 'w) Env \<Rightarrow> DeployStackOptions \<Rightarrow> 'w \<Rightarrow> 'w" where
  "deploy_world E options w = fst (snd (deployStack E options (w, [])))"

definition deploy_trace :: "('c, 'w) Env \<Rightarrow> DeployStackOptions \<Rightarrow> 'w \<Rightarrow> event list" where
  "deploy_trace E options w = snd (snd (deployStack E options (w, [])))"

definition destroy_result :: "('c, 'w) Env \<Rightarrow> DestroyStackOptions \<Rightarrow> 'w \<Rightarrow> error + unit" where
  "destroy_result E options w = fst (destroyStack E options (w, []))"

definition destroy_world :: "('c, 'w) Env \<Rightarrow> DestroyStackOptions \<Rightarrow> 'w \<Rightarrow> 'w" where
  "destroy_world E options w = fst (snd (destroyStack E options (w, [])))"

definition destroy_trace :: "('c, 'w) Env \<Rightarrow> DestroyStackOptions \<Rightarrow> 'w \<Rightarrow> event list" where
  "destroy_trace E options w = snd (snd (destroyStack E options (w, [])))"

section \<open>Reading a trace\<close>

fun is_LogError :: "event \<Rightarrow> bool" where
  "is_LogError (EvLogError _) = True"
| "is_LogError _ = False"

fun is_DeleteStack :: "event \<Rightarrow> bool" where
  "is_DeleteStack (EvDeleteStack _ _) = True"
| "is_DeleteStack _ = False"

fun is_WaitForStack :: "event \<Rightarrow> bool" where
  "is_WaitForStack (EvWaitForStack _ _ _) = True"
| "is_WaitForStack _ = False"

fun is_CreateChangeSet :: "event \<Rightarrow> bool" where
  "is_CreateChangeSet (EvCreateChangeSet _ _) = True"
| "is_CreateChangeSet _ = False"

fun is_ExecuteChangeSet :: "event \<Rightarrow> bool" where
  "is_ExecuteChangeSet (EvExecuteChangeSet _ _ _) = True"
| "is_ExecuteChangeSet _ = False"

fun is_MonitorStart :: "event \<Rightarrow> bool" where
  "is_MonitorStart (EvMonitorStart _ _ _) = True"
| "is_MonitorStart _ = False"

fun is_MonitorStop :: "event \<Rightarrow> bool" where
  "is_MonitorStop EvMonitorStop = True"
| "is_MonitorStop _ = False"

text \<open>
  The wait for the terminal status after \<open>executeChangeSet\<close>: the call of
  \<open>waitForStack\<close> that leaves out the third argument.
\<close>

fun is_final_wait :: "event \<Rightarrow> bool" where
  "is_final_wait (EvWaitForStack _ None _) = True"
| "is_final_wait _ = False"

text \<open>An event of the activity monitor, and an event that is not.\<close>

fun is_monitor :: "event \<Rightarrow> bool" where
  "is_monitor (EvMonitorStart _ _ _) = True"
| "is_monitor EvMonitorStop = True"
| "is_monitor _ = False"

definition functional :: "event \<Rightarrow> bool" where
  "functional e = (\<not> is_monitor e)"

text \<open>A call on the CloudFormation control plane, through the client or a helper.\<close>

fun control_plane_call :: "event \<Rightarrow> bool" where
  "control_plane_call (EvStackFailedCreating _ _) = True"
| "control_plane_call (EvDeleteStack _ _) = True"
| "control_plane_call (EvWaitForStack _ _ _) = True"
| "control_plane_call (EvStackExists _ _) = True"
| "control_plane_call (EvCreateChangeSet _ _) = True"
| "control_plane_call (EvWaitForChangeSet _ _ _) = True"
| "control_plane_call (EvDeleteChangeSet _ _ _) = True"
| "control_plane_call (EvDescribeStack _ _) = True"
| "control_plane_call (EvExecuteChangeSet _ _ _) = True"
| "control_plane_call _ = False"

text \<open>
  The stack name an event is addressed to: each control-plane call and the monitor carry
  one, the other events none.
\<close>

fun stack_name_of :: "event \<Rightarrow> string option" where
  "stack_name_of (EvStackFailedCreating n _) = Some n"
| "stack_name_of (EvDeleteStack i _) = Some (ds_StackName i)"
| "stack_name_of (EvWaitForStack n _ _) = Some n"
| "stack_name_of (EvStackExists n _) = Some n"
| "stack_name_of (EvCreateChangeSet i _) = Some (cs_StackName i)"
| "stack_name_of (EvWaitForChangeSet n _ _) = Some n"
| "stack_name_of (EvDeleteChangeSet n _ _) = Some n"
| "stack_name_of (EvDescribeStack n _) = Some n"
| "stack_name_of (EvExecuteChangeSet n _ _) = Some n"
| "stack_name_of (EvMonitorStart n _ _) = Some n"
| "stack_name_of _ = None"

definition addressed_to :: "string \<Rightarrow> event \<Rightarrow> bool" where
  "addressed_to n e = (case stack_name_of e of None \<Rightarrow> True | Some m \<Rightarrow> m = n)"

text \<open>
  \<open>precedes P Q tr\<close>: no event with \<open>Q\<close> comes before the first event with \<open>P\<close>, so
  every \<open>Q\<close> event of the trace has a \<open>P\<close> event strictly before it.
\<close>

fun precedes :: "('a \<Rightarrow> bool) \<Rightarrow> ('a \<Rightarrow> bool) \<Rightarrow> 'a list \<Rightarrow> bool" where
  "precedes P Q [] = True"
| "precedes P Q (x # xs) = (if P x then True else (if Q x then False else precedes P Q xs))"


section \<open>The uploader of the toolkit\<close>

text \<open>
  Modelled from the spec: \<open>uploadIfChanged\<close> of the class \<open>ToolkitInfo\<close> is not among the
  sources. The spec gives it the contract
  \<open>uploadIfChanged(content, {keyPrefix, keySuffix, contentType}) -> {key}\<close>, has the key
  deterministic for identical content, and has a second upload of unchanged content create
  no further object. The bucket maps a key to the content stored under it; the key is taken
  from the content and the properties alone, by the parameter \<open>keyOf\<close>.
\<close>

type_synonym bucket = "string \<rightharpoonup> string"

definition spec_uploadIfChanged ::
  "(string \<Rightarrow> UploadProps \<Rightarrow> string) \<Rightarrow> ToolkitInfo \<Rightarrow> string \<Rightarrow> UploadProps \<Rightarrow> bucket
     \<Rightarrow> (error + Uploaded) \<times> bucket" where
  "spec_uploadIfChanged keyOf toolkit content props b =
     (let k = keyOf content props
      in case b k of
           Some _ \<Rightarrow> (Inr \<lparr>key = k, changed = False\<rparr>, b)
         | None \<Rightarrow> (Inr \<lparr>key = k, changed = True\<rparr>, b(k \<mapsto> content)))"

section \<open>Scripted collaborators for concrete runs\<close>

text \<open>
  A control plane that answers from a script, for running the orchestrator on concrete
  inputs. The world is the bucket of the toolkit; every other call leaves it as it is.
  Colours are off, so \<open>colors.blue\<close> gives back its argument.
\<close>

record scenario =
  sc_assets :: "error + Parameter list"
  sc_dump :: "error + string"
  sc_failedCreating :: bool
  sc_afterDelete :: "Stack option"
  sc_exists :: bool
  sc_changes :: "DescribeChangeSetOutput option"
  sc_deleteChangeSet :: "error + unit"
  sc_final :: "error + Stack option"
  sc_described :: "Stack option"

definition demo_key :: "string \<Rightarrow> UploadProps \<Rightarrow> string" where
  "demo_key content props = s3KeyPrefix props @ show_nat (length content) @ s3KeySuffix props"

definition scripted :: "scenario \<Rightarrow> (unit, bucket) Env" where
  "scripted sc =
     \<lparr>prepareAssets = (\<lambda>stk tk w. (sc_assets sc, w)),
      uuid_v4 = (\<lambda>w. (''4f1d'', w)),
      sdk_cloudFormation = (\<lambda>env m w. (Inr (), w)),
      YAML_safeDump = (\<lambda>t. sc_dump sc),
      uploadIfChanged = spec_uploadIfChanged demo_key,
      stackFailedCreating = (\<lambda>c n w. (Inr (sc_failedCreating sc), w)),
      cfn_deleteStack = (\<lambda>c i w. (Inr (), w)),
      waitForStack = (\<lambda>c n fl w. (if fl = Some False then Inr (sc_afterDelete sc) else sc_final sc, w)),
      stackExists = (\<lambda>c n w. (Inr (sc_exists sc), w)),
      cfn_createChangeSet = (\<lambda>c i w. (Inr \<lparr>Id = Some ''cs-1'', StackId = Some ''arn:demo''\<rparr>, w)),
      waitForChangeSet = (\<lambda>c n cs w. (Inr (sc_changes sc), w)),
      cfn_deleteChangeSet = (\<lambda>c n cs w. (sc_deleteChangeSet sc, w)),
      cfn_executeChangeSet = (\<lambda>c n cs w. (Inr (), w)),
      describeStack = (\<lambda>c n w. (Inr (sc_described sc), w)),
      StackStatus_toString = StackStatus,
      colors_blue = (\<lambda>s. s)\<rparr>"

definition demo_env :: Environment where
  "demo_env = \<lparr>env_name = ''aws://1234/eu-west-1'', account = ''1234'', region = ''eu-west-1''\<rparr>"

definition demo_stack :: SynthesizedStack where
  "demo_stack = \<lparr>name = ''demo'', environment = Some demo_env, template = JObject [],
                 metadata = JObject []\<rparr>"

definition demo_options :: DeployStackOptions where
  "demo_options = \<lparr>stack = demo_stack, roleArn = None, deployName = None, quiet = None,
                   toolkitInfo = None\<rparr>"

definition demo_destroy :: DestroyStackOptions where
  "demo_destroy = \<lparr>stack = demo_stack, roleArn = None, deployName = None, quiet = None\<rparr>"

definition stack_in :: "string \<Rightarrow> Stack" where
  "stack_in status = \<lparr>StackName = ''demo'', StackStatus = status, StackStatusReason = None,
                      Outputs = Some [\<lparr>OutputKey = Some ''Url'', OutputValue = Some ''https://demo''\<rparr>]\<rparr>"

text \<open>The stack does not exist yet and the change set has one change.\<close>

definition sc_create :: scenario where
  "sc_create =
     \<lparr>sc_assets = Inr [], sc_dump = Inr ''Resources: {}'', sc_failedCreating = False,
      sc_afterDelete = None, sc_exists = False,
      sc_changes = Some \<lparr>Changes = Some [JObject []]\<rparr>, sc_deleteChangeSet = Inr (),
      sc_final = Inr (Some (stack_in ''CREATE_COMPLETE'')),
      sc_described = Some (stack_in ''CREATE_COMPLETE'')\<rparr>"

text \<open>The stack exists and the template is unchanged: the change list is empty.\<close>

definition sc_unchanged :: scenario where
  "sc_unchanged =
     sc_create\<lparr>sc_exists := True, sc_changes := Some \<lparr>Changes = Some []\<rparr>,
               sc_described := Some (stack_in ''UPDATE_COMPLETE'')\<rparr>"


text \<open>A serialized template of 51201 characters.\<close>

definition sc_large :: scenario where
  "sc_large = sc_create\<lparr>sc_dump := Inr (replicate 51201 (CHR ''a''))\<rparr>"

text \<open>A serialized template of exactly 50 * 1024 characters, each of one byte.\<close>

definition sc_threshold :: scenario where
  "sc_threshold = sc_create\<lparr>sc_dump := Inr (replicate 51200 (CHR ''a''))\<rparr>"

text \<open>A serialized template of 30000 characters that take two bytes each.\<close>

definition sc_two_byte :: scenario where
  "sc_two_byte = sc_create\<lparr>sc_dump := Inr (replicate 30000 (CHR 0xE9))\<rparr>"

text \<open>
  The stack failed during creation; after the delete request it is still there, in
  \<open>DELETE_FAILED\<close>.
\<close>

definition sc_stuck :: scenario where
  "sc_stuck = sc_create\<lparr>sc_failedCreating := True,
                         sc_afterDelete := Some (stack_in ''DELETE_FAILED'')\<rparr>"

text \<open>The wait for the terminal status after execution is rejected.\<close>

definition sc_wait_fails :: scenario where
  "sc_wait_fails = sc_create\<lparr>sc_final := Inl (Error ''Stack demo failed'')\<rparr>"

definition demo_toolkit :: ToolkitInfo where
  "demo_toolkit = \<lparr>bucketUrl = ''https://bucket.example''\<rparr>"

section \<open>Stepping through a run\<close>

text \<open>
  \<open>wp m Q w tr\<close>: the run of \<open>m\<close> from the world \<open>w\<close> and the trace \<open>tr\<close> ends in an
  outcome, a world and a trace that satisfy \<open>Q\<close>.
\<close>

definition wp ::
  "('w, 'a) prog \<Rightarrow> ((error + 'a) \<Rightarrow> 'w \<Rightarrow> event list \<Rightarrow> bool) \<Rightarrow> 'w \<Rightarrow> event list \<Rightarrow> bool" where
  "wp m Q w tr = (case m (w, tr) of (r, w', tr') \<Rightarrow> Q r w' tr')"

definition demo_toolkit_options :: DeployStackOptions where
  "demo_toolkit_options = demo_options\<lparr>toolkitInfo := Some demo_toolkit\<rparr>"

definition demo_url_request :: CreateChangeSetInput where
  "demo_url_request =
     changeSetRequest ''demo'' ''4f1d'' False
       \<lparr>TemplateBody = None,
        TemplateURL = Some (''https://bucket.example/'' @
                              demo_key (replicate 51201 (CHR ''a'')) (uploadProps ''demo''))\<rparr> [] None"

definition blank_name_options :: DeployStackOptions where
  "blank_name_options = demo_options\<lparr>deployName := Some ''''\<rparr>"

definition blank_name_destroy :: DestroyStackOptions where
  "blank_name_destroy = demo_destroy\<lparr>deployName := Some '''', quiet := Some True\<rparr>"

text \<open>The demo stack without a resolved environment.\<close>

definition noenv_options :: DeployStackOptions where
  "noenv_options = demo_options\<lparr>stack := demo_stack\<lparr>environment := None\<rparr>\<rparr>"

text \<open>The requests of the demo runs that create and that update the stack.\<close>

definition demo_create_request :: CreateChangeSetInput where
  "demo_create_request =
     changeSetRequest ''demo'' ''4f1d'' False
       \<lparr>TemplateBody = Some ''Resources: {}'', TemplateURL = None\<rparr> [] None"

definition demo_update_request :: CreateChangeSetInput where
  "demo_update_request =
     changeSetRequest ''demo'' ''4f1d'' True
       \<lparr>TemplateBody = Some ''Resources: {}'', TemplateURL = None\<rparr> [] None"

text \<open>The stack exists and the change set has one change.\<close>

definition sc_update :: scenario where
  "sc_update = sc_create\<lparr>sc_exists := True, sc_described := Some (stack_in ''UPDATE_COMPLETE'')\<rparr>"

section \<open>Rules for stepping through a run\<close>

lemma wp_ret: "Q (Inr x) w tr \<Longrightarrow> wp (ret x) Q w tr"
  by (simp add: wp_def ret_def)

lemma wp_throw: "Q (Inl e) w tr \<Longrightarrow> wp (throw e) Q w tr"
  by (simp add: wp_def throw_def)

lemma wp_emit: "Q (Inr ()) w (tr @ [ev]) \<Longrightarrow> wp (emit ev) Q w tr"
  by (simp add: wp_def emit_def)

lemma wp_call: "(\<And>r w'. f w = (r, w') \<Longrightarrow> Q r w' (tr @ [ev r])) \<Longrightarrow> wp (call f ev) Q w tr"
  by (auto simp add: wp_def call_def split: prod.splits)

lemma wp_if:
  "(b \<Longrightarrow> wp m1 Q w tr) \<Longrightarrow> (\<not> b \<Longrightarrow> wp m2 Q w tr) \<Longrightarrow> wp (if b then m1 else m2) Q w tr"
  by simp

lemma wp_option:
  "(x = None \<Longrightarrow> wp m1 Q w tr) \<Longrightarrow> (\<And>y. x = Some y \<Longrightarrow> wp (m2 y) Q w tr) \<Longrightarrow>
   wp (case x of None \<Rightarrow> m1 | Some y \<Rightarrow> m2 y) Q w tr"
  by (simp split: option.splits)

lemma wp_sum:
  "(\<And>e. x = Inl e \<Longrightarrow> wp (m1 e) Q w tr) \<Longrightarrow> (\<And>y. x = Inr y \<Longrightarrow> wp (m2 y) Q w tr) \<Longrightarrow>
   wp (case x of Inl e \<Rightarrow> m1 e | Inr y \<Rightarrow> m2 y) Q w tr"
  by (simp split: sum.splits)

lemma wp_bnd_ret: "wp (f x) Q w tr \<Longrightarrow> wp (bnd (ret x) f) Q w tr"
  by (simp add: wp_def bnd_def ret_def)

lemma wp_bnd_throw: "Q (Inl e) w tr \<Longrightarrow> wp (bnd (throw e) f) Q w tr"
  by (simp add: wp_def bnd_def throw_def)

lemma wp_bnd_emit: "wp (f ()) Q w (tr @ [ev]) \<Longrightarrow> wp (bnd (emit ev) f) Q w tr"
  by (simp add: wp_def bnd_def emit_def)

lemma wp_bnd_call:
  "(\<And>e w'. f w = (Inl e, w') \<Longrightarrow> Q (Inl e) w' (tr @ [ev (Inl e)])) \<Longrightarrow>
   (\<And>x w'. f w = (Inr x, w') \<Longrightarrow> wp (g x) Q w' (tr @ [ev (Inr x)])) \<Longrightarrow>
   wp (bnd (call f ev) g) Q w tr"
  by (auto simp add: wp_def bnd_def call_def split: prod.splits sum.splits)

lemma wp_bnd_fresh:
  "(\<And>u w'. f w = (u, w') \<Longrightarrow> wp (g u) Q w' (tr @ [EvUuid u])) \<Longrightarrow> wp (bnd (fresh f) g) Q w tr"
  by (auto simp add: wp_def bnd_def fresh_def split: prod.splits)

lemma wp_bnd_bnd: "wp (bnd m (\<lambda>x. bnd (f x) g)) Q w tr \<Longrightarrow> wp (bnd (bnd m f) g) Q w tr"
  by (auto simp add: wp_def bnd_def split: prod.splits sum.splits)

lemma wp_bnd_if:
  "(b \<Longrightarrow> wp (bnd m1 g) Q w tr) \<Longrightarrow> (\<not> b \<Longrightarrow> wp (bnd m2 g) Q w tr) \<Longrightarrow>
   wp (bnd (if b then m1 else m2) g) Q w tr"
  by simp

lemma wp_bnd_option:
  "(x = None \<Longrightarrow> wp (bnd m1 g) Q w tr) \<Longrightarrow> (\<And>y. x = Some y \<Longrightarrow> wp (bnd (m2 y) g) Q w tr) \<Longrightarrow>
   wp (bnd (case x of None \<Rightarrow> m1 | Some y \<Rightarrow> m2 y) g) Q w tr"
  by (simp split: option.splits)

lemma wp_bnd_sum:
  "(\<And>e. x = Inl e \<Longrightarrow> wp (bnd (m1 e) g) Q w tr) \<Longrightarrow>
   (\<And>y. x = Inr y \<Longrightarrow> wp (bnd (m2 y) g) Q w tr) \<Longrightarrow>
   wp (bnd (case x of Inl e \<Rightarrow> m1 e | Inr y \<Rightarrow> m2 y) g) Q w tr"
  by (simp split: sum.splits)

lemmas wp_rules =
  wp_ret wp_throw wp_emit wp_call wp_if wp_option wp_sum
  wp_bnd_ret wp_bnd_throw wp_bnd_emit wp_bnd_call wp_bnd_fresh wp_bnd_bnd
  wp_bnd_if wp_bnd_option wp_bnd_sum

lemmas deploy_defs =
  deployStack_def makeBodyParameter_def getStackOutputs_def monitor_start_def
  monitor_stop_def Let_def

lemmas destroy_defs = destroyStack_def monitor_start_def monitor_stop_def Let_def

lemma wp_deploy:
  "wp (deployStack E options) Q w [] \<Longrightarrow>
   Q (deploy_result E options w) (deploy_world E options w) (deploy_trace E options w)"
  by (simp add: wp_def deploy_result_def deploy_world_def deploy_trace_def split: prod.splits)

lemma wp_destroy:
  "wp (destroyStack E options) Q w [] \<Longrightarrow>
   Q (destroy_result E options w) (destroy_world E options w) (destroy_trace E options w)"
  by (simp add: wp_def destroy_result_def destroy_world_def destroy_trace_def split: prod.splits)

text \<open>Unfolding a run on the scripted collaborators.\<close>

lemmas run_defs =
  deploy_result_def deploy_world_def deploy_trace_def destroy_result_def destroy_world_def
  destroy_trace_def deployStack_def destroyStack_def makeBodyParameter_def getStackOutputs_def
  monitor_start_def monitor_stop_def bnd_def call_def fresh_def emit_def ret_def throw_def
  failure_def js_or_def truthy_def no_changes_def changes_length_def scripted_def
  spec_uploadIfChanged_def demo_options_def demo_destroy_def demo_stack_def Let_def

section \<open>Bytes and characters\<close>

lemma length_le_utf8_length: "length s \<le> utf8_length s"
  by (induction s) (auto simp: utf8_length_def)

lemma utf8_length_replicate:
  "utf8_length (replicate n c) = n * (if of_char c < (128::nat) then 1 else 2)"
  by (induction n) (auto simp: utf8_length_def)

section \<open>What \<open>precedes\<close> says\<close>

lemma precedes_iff:
  assumes "\<And>x. P x \<Longrightarrow> \<not> Q x"
  shows "precedes P Q xs \<longleftrightarrow> (\<forall>j<length xs. Q (xs ! j) \<longrightarrow> (\<exists>i<j. P (xs ! i)))"
proof (induction xs)
  case Nil
  then show ?case by simp
next
  case (Cons x xs)
  show ?case
  proof (cases "P x")
    case True
    have "\<exists>i<j. P ((x # xs) ! i)" if "Q ((x # xs) ! j)" for j
    proof (cases j)
      case 0
      with that True assms show ?thesis by auto
    next
      case (Suc k)
      with True show ?thesis by (intro exI [of _ 0]) simp
    qed
    with True show ?thesis by simp
  next
    case False
    show ?thesis
    proof (cases "Q x")
      case True
      with False have "\<not> (\<forall>j<length (x # xs). Q ((x # xs) ! j) \<longrightarrow> (\<exists>i<j. P ((x # xs) ! i)))"
        by (intro notI) (auto dest: spec [of _ 0])
      with False True show ?thesis by simp
    next
      case nq: False
      have "(\<forall>j<length (x # xs). Q ((x # xs) ! j) \<longrightarrow> (\<exists>i<j. P ((x # xs) ! i))) \<longleftrightarrow>
            (\<forall>j<length xs. Q (xs ! j) \<longrightarrow> (\<exists>i<j. P (xs ! i)))" (is "?L \<longleftrightarrow> ?R")
      proof
        assume l: ?L
        show ?R
        proof (intro allI impI)
          fix j assume "j < length xs" "Q (xs ! j)"
          with l have "\<exists>i<Suc j. P ((x # xs) ! i)"
            by (auto dest!: spec [of _ "Suc j"])
          then obtain i where i: "i < Suc j" "P ((x # xs) ! i)" by blast
          with False obtain k where "i = Suc k" by (cases i) auto
          with i show "\<exists>i<j. P (xs ! i)" by auto
        qed
      next
        assume r: ?R
        show ?L
        proof (intro allI impI)
          fix j assume j: "j < length (x # xs)" "Q ((x # xs) ! j)"
          with nq obtain k where k: "j = Suc k" by (cases j) auto
          with j r obtain i where "i < k" "P (xs ! i)" by auto
          with k show "\<exists>i<j. P ((x # xs) ! i)" by (intro exI [of _ "Suc i"]) simp
        qed
      qed
      with False nq Cons show ?thesis by simp
    qed
  qed
qed

section \<open>destroyStack\<close>

text \<open>
  C6. When \<open>stackExists\<close> reports that the stack with the deploy name does not exist,
  \<open>destroyStack\<close> returns normally, and the run has no \<open>deleteStack\<close> call and does not
  start an activity monitor; the two calls it made are the client factory and
  \<open>stackExists\<close>.
\<close>

theorem destroyStack_absent_is_noop:
  assumes "EvStackExists dn (Inr False) \<in> set (destroy_trace E options w)"
  shows "destroy_result E options w = Inr () \<and>
         \<not> list_ex is_DeleteStack (destroy_trace E options w) \<and>
         \<not> list_ex is_MonitorStart (destroy_trace E options w) \<and>
         length (destroy_trace E options w) = 2"
proof -
  have "wp (destroyStack E options)
          (\<lambda>r w' tr. EvStackExists dn (Inr False) \<in> set tr \<longrightarrow>
             r = Inr () \<and> \<not> list_ex is_DeleteStack tr \<and> \<not> list_ex is_MonitorStart tr \<and>
             length tr = 2) w []"
    unfolding destroy_defs by (intro wp_rules) simp_all
  from wp_destroy [OF this] assms show ?thesis by simp
qed

theorem destroyStack_absent_is_noop_witness:
  "EvStackExists ''demo'' (Inr False) \<in> set (destroy_trace (scripted sc_create) demo_destroy Map.empty) \<and>
   destroy_result (scripted sc_create) demo_destroy Map.empty = Inr () \<and>
   \<not> list_ex is_DeleteStack (destroy_trace (scripted sc_create) demo_destroy Map.empty) \<and>
   \<not> list_ex is_MonitorStart (destroy_trace (scripted sc_create) demo_destroy Map.empty) \<and>
   length (destroy_trace (scripted sc_create) demo_destroy Map.empty) = 2"
proof -
  have h: "EvStackExists ''demo'' (Inr False)
             \<in> set (destroy_trace (scripted sc_create) demo_destroy Map.empty)"
    by (simp add: run_defs sc_create_def)
  from destroyStack_absent_is_noop [OF h] h show ?thesis by simp
qed

text \<open>
  C5. When the wait after the delete request returns, \<open>destroyStack\<close> returns normally
  if the stack is absent or its status is \<open>DELETE_COMPLETE\<close>; if the stack is still
  present with another status, it throws the error
  \<open>Failed to destroy <deploy name>: <status>\<close>, where the status is the text of
  \<open>StackStatus.fromStackDescription\<close> of the awaited description.
\<close>

theorem destroyStack_checks_final_status:
  assumes "EvWaitForStack dn fl (Inr st) \<in> set (destroy_trace E options w)"
  shows "dn = js_or (deployName options) (name (stack options)) \<and>
         destroy_result E options w =
           (case st of
              None \<Rightarrow> Inr ()
            | Some d \<Rightarrow>
                if StackStatus d = ''DELETE_COMPLETE'' then Inr ()
                else Inl (Error (''Failed to destroy '' @ dn @ '': '' @ StackStatus_toString E d)))"
proof -
  have "wp (destroyStack E options)
          (\<lambda>r w' tr. EvWaitForStack dn fl (Inr st) \<in> set tr \<longrightarrow>
             dn = js_or (deployName options) (name (stack options)) \<and>
             r = (case st of
                    None \<Rightarrow> Inr ()
                  | Some d \<Rightarrow>
                      if StackStatus d = ''DELETE_COMPLETE'' then Inr ()
                      else Inl (Error (failed_to_destroy_message dn (StackStatus_toString E d))))) w []"
    unfolding destroy_defs by (intro wp_rules) auto
  from wp_destroy [OF this, unfolded failed_to_destroy_message_def] assms show ?thesis
    by simp
qed

theorem destroyStack_checks_final_status_witness:
  "EvWaitForStack ''demo'' (Some False) (Inr (Some (stack_in ''DELETE_FAILED'')))
     \<in> set (destroy_trace (scripted (sc_stuck\<lparr>sc_exists := True\<rparr>)) demo_destroy Map.empty) \<and>
   destroy_result (scripted (sc_stuck\<lparr>sc_exists := True\<rparr>)) demo_destroy Map.empty =
     Inl (Error ''Failed to destroy demo: DELETE_FAILED'')"
proof -
  have h: "EvWaitForStack ''demo'' (Some False) (Inr (Some (stack_in ''DELETE_FAILED'')))
     \<in> set (destroy_trace (scripted (sc_stuck\<lparr>sc_exists := True\<rparr>)) demo_destroy Map.empty)"
    by (simp add: run_defs sc_stuck_def sc_create_def)
  from destroyStack_checks_final_status [OF h] h show ?thesis
    by (simp add: scripted_def stack_in_def js_or_def demo_destroy_def demo_stack_def)
qed

section \<open>deployStack: the change-set request\<close>

lemma changeSetRequest_simps:
  "cs_StackName (changeSetRequest dn ex u bp ps ra) = dn"
  "cs_ChangeSetName (changeSetRequest dn ex u bp ps ra) = changeSetName_of ex"
  "cs_ChangeSetType (changeSetRequest dn ex u bp ps ra) = (if u then ''UPDATE'' else ''CREATE'')"
  "cs_TemplateBody (changeSetRequest dn ex u bp ps ra) = TemplateBody bp"
  "cs_TemplateURL (changeSetRequest dn ex u bp ps ra) = TemplateURL bp"
  by (simp_all add: changeSetRequest_def)

lemma deleteStackInput_simps:
  "ds_StackName (deleteStackInput dn ra) = dn"
  "ds_RoleARN (deleteStackInput dn ra) = ra"
  by (simp_all add: deleteStackInput_def)

text \<open>
  C2. Every \<open>createChangeSet\<close> request of a run is for the deploy name. Before it the
  run asked \<open>stackExists\<close> once, with the client of the run and on that name; the answer
  in the trace is the answer \<open>stackExists\<close> gave, \<open>createChangeSet\<close> was called with
  the request in the world that \<open>stackExists\<close> left, and the request's
  \<open>ChangeSetType\<close> is \<open>CREATE\<close> exactly when \<open>stackExists\<close> answered false and
  \<open>UPDATE\<close> exactly when it answered true.
\<close>

theorem deployStack_change_set_type:
  assumes "EvCreateChangeSet req rr \<in> set (deploy_trace E options w)"
  shows "cs_StackName req = js_or (deployName options) (name (stack options)) \<and>
   (\<exists>b cfn w1 w2 w3.
       stackExists E cfn (cs_StackName req) w1 = (Inr b, w2) \<and>
       cfn_createChangeSet E cfn req w2 = (rr, w3) \<and>
       EvStackExists (cs_StackName req) (Inr b) \<in> set (deploy_trace E options w) \<and>
       (cs_ChangeSetType req = ''CREATE'' \<longleftrightarrow> \<not> b) \<and>
       (cs_ChangeSetType req = ''UPDATE'' \<longleftrightarrow> b) \<and>
       (\<forall>n r. EvStackExists n r \<in> set (deploy_trace E options w) \<longrightarrow>
              n = cs_StackName req \<and> r = Inr b))"
proof -
  have "wp (deployStack E options)
          (\<lambda>r w' tr. EvCreateChangeSet req rr \<in> set tr \<longrightarrow>
             cs_StackName req = js_or (deployName options) (name (stack options)) \<and>
             (\<exists>b cfn w1 w2 w3.
                 stackExists E cfn (cs_StackName req) w1 = (Inr b, w2) \<and>
                 cfn_createChangeSet E cfn req w2 = (rr, w3) \<and>
                 EvStackExists (cs_StackName req) (Inr b) \<in> set tr \<and>
                 (cs_ChangeSetType req = ''CREATE'' \<longleftrightarrow> \<not> b) \<and>
                 (cs_ChangeSetType req = ''UPDATE'' \<longleftrightarrow> b) \<and>
                 (\<forall>n r. EvStackExists n r \<in> set tr \<longrightarrow> n = cs_StackName req \<and> r = Inr b))) w []"
    unfolding deploy_defs
    by ((intro wp_rules; auto simp: changeSetRequest_simps); blast)
  from wp_deploy [OF this] assms show ?thesis by (rule mp)
qed

theorem deployStack_change_set_type_witness:
  "(EvCreateChangeSet demo_create_request (Inr \<lparr>Id = Some ''cs-1'', StackId = Some ''arn:demo''\<rparr>) \<in> set (deploy_trace (scripted sc_create) demo_options Map.empty) \<and>
   cs_StackName demo_create_request = js_or (deployName demo_options) (name (stack demo_options)) \<and>
   (\<exists>b cfn w1 w2 w3.
       stackExists (scripted sc_create) cfn (cs_StackName demo_create_request) w1 = (Inr b, w2) \<and>
       cfn_createChangeSet (scripted sc_create) cfn demo_create_request w2 = ((Inr \<lparr>Id = Some ''cs-1'', StackId = Some ''arn:demo''\<rparr>), w3) \<and>
       EvStackExists (cs_StackName demo_create_request) (Inr b) \<in> set (deploy_trace (scripted sc_create) demo_options Map.empty) \<and>
       (cs_ChangeSetType demo_create_request = ''CREATE'' \<longleftrightarrow> \<not> b) \<and>
       (cs_ChangeSetType demo_create_request = ''UPDATE'' \<longleftrightarrow> b) \<and>
       (\<forall>n r. EvStackExists n r \<in> set (deploy_trace (scripted sc_create) demo_options Map.empty) \<longrightarrow>
              n = cs_StackName demo_create_request \<and> r = Inr b))) \<and>
   (EvCreateChangeSet demo_update_request (Inr \<lparr>Id = Some ''cs-1'', StackId = Some ''arn:demo''\<rparr>) \<in> set (deploy_trace (scripted sc_update) demo_options Map.empty) \<and>
   cs_StackName demo_update_request = js_or (deployName demo_options) (name (stack demo_options)) \<and>
   (\<exists>b cfn w1 w2 w3.
       stackExists (scripted sc_update) cfn (cs_StackName demo_update_request) w1 = (Inr b, w2) \<and>
       cfn_createChangeSet (scripted sc_update) cfn demo_update_request w2 = ((Inr \<lparr>Id = Some ''cs-1'', StackId = Some ''arn:demo''\<rparr>), w3) \<and>
       EvStackExists (cs_StackName demo_update_request) (Inr b) \<in> set (deploy_trace (scripted sc_update) demo_options Map.empty) \<and>
       (cs_ChangeSetType demo_update_request = ''CREATE'' \<longleftrightarrow> \<not> b) \<and>
       (cs_ChangeSetType demo_update_request = ''UPDATE'' \<longleftrightarrow> b) \<and>
       (\<forall>n r. EvStackExists n r \<in> set (deploy_trace (scripted sc_update) demo_options Map.empty) \<longrightarrow>
              n = cs_StackName demo_update_request \<and> r = Inr b)))"
proof -
  have h: "EvCreateChangeSet demo_create_request (Inr \<lparr>Id = Some ''cs-1'', StackId = Some ''arn:demo''\<rparr>) \<in> set (deploy_trace (scripted sc_create) demo_options Map.empty)"
    by (simp add: run_defs sc_create_def demo_create_request_def LARGE_TEMPLATE_SIZE_KB_def)
  have k: "EvCreateChangeSet demo_update_request (Inr \<lparr>Id = Some ''cs-1'', StackId = Some ''arn:demo''\<rparr>) \<in> set (deploy_trace (scripted sc_update) demo_options Map.empty)"
    by (simp add: run_defs sc_update_def sc_create_def demo_update_request_def
          LARGE_TEMPLATE_SIZE_KB_def)
  from h deployStack_change_set_type [OF h] have a:
    "EvCreateChangeSet demo_create_request (Inr \<lparr>Id = Some ''cs-1'', StackId = Some ''arn:demo''\<rparr>) \<in> set (deploy_trace (scripted sc_create) demo_options Map.empty) \<and>
   cs_StackName demo_create_request = js_or (deployName demo_options) (name (stack demo_options)) \<and>
   (\<exists>b cfn w1 w2 w3.
       stackExists (scripted sc_create) cfn (cs_StackName demo_create_request) w1 = (Inr b, w2) \<and>
       cfn_createChangeSet (scripted sc_create) cfn demo_create_request w2 = ((Inr \<lparr>Id = Some ''cs-1'', StackId = Some ''arn:demo''\<rparr>), w3) \<and>
       EvStackExists (cs_StackName demo_create_request) (Inr b) \<in> set (deploy_trace (scripted sc_create) demo_options Map.empty) \<and>
       (cs_ChangeSetType demo_create_request = ''CREATE'' \<longleftrightarrow> \<not> b) \<and>
       (cs_ChangeSetType demo_create_request = ''UPDATE'' \<longleftrightarrow> b) \<and>
       (\<forall>n r. EvStackExists n r \<in> set (deploy_trace (scripted sc_create) demo_options Map.empty) \<longrightarrow>
              n = cs_StackName demo_create_request \<and> r = Inr b))"
    by (rule conjI)
  from k deployStack_change_set_type [OF k] have b:
    "EvCreateChangeSet demo_update_request (Inr \<lparr>Id = Some ''cs-1'', StackId = Some ''arn:demo''\<rparr>) \<in> set (deploy_trace (scripted sc_update) demo_options Map.empty) \<and>
   cs_StackName demo_update_request = js_or (deployName demo_options) (name (stack demo_options)) \<and>
   (\<exists>b cfn w1 w2 w3.
       stackExists (scripted sc_update) cfn (cs_StackName demo_update_request) w1 = (Inr b, w2) \<and>
       cfn_createChangeSet (scripted sc_update) cfn demo_update_request w2 = ((Inr \<lparr>Id = Some ''cs-1'', StackId = Some ''arn:demo''\<rparr>), w3) \<and>
       EvStackExists (cs_StackName demo_update_request) (Inr b) \<in> set (deploy_trace (scripted sc_update) demo_options Map.empty) \<and>
       (cs_ChangeSetType demo_update_request = ''CREATE'' \<longleftrightarrow> \<not> b) \<and>
       (cs_ChangeSetType demo_update_request = ''UPDATE'' \<longleftrightarrow> b) \<and>
       (\<forall>n r. EvStackExists n r \<in> set (deploy_trace (scripted sc_update) demo_options Map.empty) \<longrightarrow>
              n = cs_StackName demo_update_request \<and> r = Inr b))"
    by (rule conjI)
  from a b show ?thesis by (rule conjI)
qed

text \<open>The two demo requests ask for \<open>CREATE\<close> and for \<open>UPDATE\<close>.\<close>

lemma demo_request_types:
  "cs_ChangeSetType demo_create_request = ''CREATE'' \<and>
   cs_ChangeSetType demo_update_request = ''UPDATE'' \<and>
   stackExists (scripted sc_create) () ''demo'' Map.empty = (Inr False, Map.empty) \<and>
   stackExists (scripted sc_update) () ''demo'' Map.empty = (Inr True, Map.empty)"
  by (simp add: demo_create_request_def demo_update_request_def changeSetRequest_simps
        scripted_def sc_update_def sc_create_def)

text \<open>
  C7. With \<open>toolkitInfo\<close> configured, every \<open>createChangeSet\<close> request of a run has
  no \<open>TemplateBody\<close>, and its \<open>TemplateURL\<close> is the bucket URL, a slash and the key
  that \<open>uploadIfChanged\<close> returned for the serialized template, whatever its length.
  With the uploader as the spec describes it, that URL is fixed by the bucket URL, the
  content and the stack name; the key does not depend on what the bucket holds, and a
  second upload of the same content leaves the bucket as it is.
\<close>

theorem deployStack_toolkit_uses_url:
  assumes "toolkitInfo options = Some tk"
    and "EvCreateChangeSet req rr \<in> set (deploy_trace E options w)"
  shows "cs_TemplateBody req = None \<and>
         (\<exists>content up b b'.
            YAML_safeDump E (template (stack options)) = Inr content \<and>
            uploadIfChanged E tk content (uploadProps (name (stack options))) b = (Inr up, b') \<and>
            EvUploadIfChanged content (uploadProps (name (stack options))) (Inr up)
              \<in> set (deploy_trace E options w) \<and>
            cs_TemplateURL req = Some (bucketUrl tk @ ''/'' @ key up) \<and>
            (uploadIfChanged E = spec_uploadIfChanged keyOf \<longrightarrow>
               cs_TemplateURL req =
                 Some (bucketUrl tk @ ''/'' @ keyOf content (uploadProps (name (stack options)))))) \<and>
         map_sum id key (fst (spec_uploadIfChanged keyOf tk c p b1)) = Inr (keyOf c p) \<and>
         spec_uploadIfChanged keyOf tk c p (snd (spec_uploadIfChanged keyOf tk c p b1)) =
           (Inr \<lparr>key = keyOf c p, changed = False\<rparr>, snd (spec_uploadIfChanged keyOf tk c p b1))"
proof -
  have "wp (deployStack E options)
          (\<lambda>r w' tr. EvCreateChangeSet req rr \<in> set tr \<longrightarrow>
             cs_TemplateBody req = None \<and>
             (\<exists>content up b b'.
                YAML_safeDump E (template (stack options)) = Inr content \<and>
                uploadIfChanged E tk content (uploadProps (name (stack options))) b = (Inr up, b') \<and>
                EvUploadIfChanged content (uploadProps (name (stack options))) (Inr up) \<in> set tr \<and>
                cs_TemplateURL req = Some (bucketUrl tk @ ''/'' @ key up))) w []"
    unfolding deploy_defs using assms(1)
    by (intro wp_rules) (auto simp: changeSetRequest_simps)
  from wp_deploy [OF this] assms(2)
  obtain content up b b' where u:
    "cs_TemplateBody req = None"
    "YAML_safeDump E (template (stack options)) = Inr content"
    "uploadIfChanged E tk content (uploadProps (name (stack options))) b = (Inr up, b')"
    "EvUploadIfChanged content (uploadProps (name (stack options))) (Inr up)
       \<in> set (deploy_trace E options w)"
    "cs_TemplateURL req = Some (bucketUrl tk @ ''/'' @ key up)"
    by auto
  have k: "key up = keyOf content (uploadProps (name (stack options)))"
    if "uploadIfChanged E = spec_uploadIfChanged keyOf"
    using u(3) that by (auto simp: spec_uploadIfChanged_def Let_def split: option.splits)
  have s1: "map_sum id key (fst (spec_uploadIfChanged keyOf tk c p b1)) = Inr (keyOf c p)"
    by (simp add: spec_uploadIfChanged_def Let_def split: option.splits)
  have s2: "spec_uploadIfChanged keyOf tk c p (snd (spec_uploadIfChanged keyOf tk c p b1)) =
              (Inr \<lparr>key = keyOf c p, changed = False\<rparr>, snd (spec_uploadIfChanged keyOf tk c p b1))"
    by (simp add: spec_uploadIfChanged_def Let_def split: option.splits)
  from u k s1 s2 show ?thesis by auto
qed

theorem deployStack_toolkit_uses_url_witness:
  "toolkitInfo demo_toolkit_options = Some demo_toolkit \<and>
   EvCreateChangeSet demo_url_request (Inr \<lparr>Id = Some ''cs-1'', StackId = Some ''arn:demo''\<rparr>)
     \<in> set (deploy_trace (scripted sc_large) demo_toolkit_options Map.empty) \<and>
   cs_TemplateBody demo_url_request = None \<and>
   cs_TemplateURL demo_url_request =
     Some (''https://bucket.example/'' @
             demo_key (replicate 51201 (CHR ''a'')) (uploadProps ''demo''))"
proof -
  have t: "toolkitInfo demo_toolkit_options = Some demo_toolkit"
    by (simp add: demo_toolkit_options_def)
  have h: "EvCreateChangeSet demo_url_request
             (Inr \<lparr>Id = Some ''cs-1'', StackId = Some ''arn:demo''\<rparr>)
           \<in> set (deploy_trace (scripted sc_large) demo_toolkit_options Map.empty)"
    by (simp add: run_defs demo_toolkit_options_def demo_toolkit_def demo_url_request_def
          sc_large_def sc_create_def)
  from deployStack_toolkit_uses_url [OF t h] have "cs_TemplateBody demo_url_request = None"
    by blast
  with t h show ?thesis
    by (simp add: demo_url_request_def changeSetRequest_simps)
qed

section \<open>The deploy name\<close>

text \<open>
  C10. When \<open>options.deployName\<close> is absent or the empty string, every control-plane
  call of \<open>deployStack\<close> and of \<open>destroyStack\<close>, and the activity monitor, is addressed
  to \<open>options.stack.name\<close>.
\<close>

theorem deploy_name_defaults_to_stack_name:
  assumes "deployName options = None \<or> deployName options = Some ''''"
    and "deployName doptions = None \<or> deployName doptions = Some ''''"
  shows "list_all (addressed_to (name (stack options))) (deploy_trace E options w) \<and>
         list_all (addressed_to (name (stack doptions))) (destroy_trace E' doptions w')"
proof -
  have n: "js_or (deployName options) (name (stack options)) = name (stack options)"
    using assms(1) by (auto simp: js_or_def)
  have m: "js_or (deployName doptions) (name (stack doptions)) = name (stack doptions)"
    using assms(2) by (auto simp: js_or_def)
  have "wp (deployStack E options)
          (\<lambda>r w' tr. list_all (addressed_to (name (stack options))) tr) w []"
    unfolding deploy_defs n
    by (intro wp_rules)
       (simp_all add: addressed_to_def changeSetRequest_simps deleteStackInput_simps)
  moreover have "wp (destroyStack E' doptions)
          (\<lambda>r w' tr. list_all (addressed_to (name (stack doptions))) tr) w' []"
    unfolding destroy_defs m
    by (intro wp_rules) (simp_all add: addressed_to_def deleteStackInput_simps)
  ultimately show ?thesis
    using wp_deploy [of E options _ w] wp_destroy [of E' doptions _ w'] by blast
qed

theorem deploy_name_defaults_to_stack_name_witness:
  "(deployName blank_name_options = None \<or> deployName blank_name_options = Some '''') \<and>
   (deployName blank_name_destroy = None \<or> deployName blank_name_destroy = Some '''') \<and>
   list_all (addressed_to (name (stack blank_name_options)))
     (deploy_trace (scripted sc_create) blank_name_options Map.empty) \<and>
   list_all (addressed_to (name (stack blank_name_destroy)))
     (destroy_trace (scripted sc_unchanged) blank_name_destroy Map.empty) \<and>
   EvStackExists ''demo'' (Inr False)
     \<in> set (deploy_trace (scripted sc_create) blank_name_options Map.empty) \<and>
   EvDeleteStack (deleteStackInput ''demo'' None) (Inr ())
     \<in> set (destroy_trace (scripted sc_unchanged) blank_name_destroy Map.empty)"
proof -
  have a: "deployName blank_name_options = None \<or> deployName blank_name_options = Some ''''"
    by (simp add: blank_name_options_def)
  have b: "deployName blank_name_destroy = None \<or> deployName blank_name_destroy = Some ''''"
    by (simp add: blank_name_destroy_def)
  have c: "EvStackExists ''demo'' (Inr False)
             \<in> set (deploy_trace (scripted sc_create) blank_name_options Map.empty)"
    by (simp add: run_defs blank_name_options_def sc_create_def LARGE_TEMPLATE_SIZE_KB_def)
  have d: "EvDeleteStack (deleteStackInput ''demo'' None) (Inr ())
             \<in> set (destroy_trace (scripted sc_unchanged) blank_name_destroy Map.empty)"
    by (simp add: run_defs blank_name_destroy_def sc_unchanged_def sc_create_def)
  from deploy_name_defaults_to_stack_name
         [OF a b, where E = "scripted sc_create" and w = Map.empty
            and E' = "scripted sc_unchanged" and w' = Map.empty]
       a b c d
  show ?thesis by simp
qed

section \<open>deployStack: a stack that failed during creation\<close>

text \<open>
  C4. When \<open>stackFailedCreating\<close> reports that the stack with the deploy name failed
  during creation, \<open>deployStack\<close> calls \<open>deleteStack\<close> for it, once, in the world that
  \<open>stackFailedCreating\<close> left, and the answer in the trace is the answer \<open>deleteStack\<close>
  gave. A \<open>waitForStack\<close> for the deletion is made only after \<open>deleteStack\<close> succeeded,
  in the world it left, and any \<open>createChangeSet\<close> of the run comes after both. If the
  awaited stack is still present with a status other than \<open>DELETE_COMPLETE\<close>, the run
  throws the error that names the stack and the status, and it has no \<open>createChangeSet\<close>
  call at all.
\<close>

theorem deployStack_deletes_failed_stack_first:
  assumes "EvStackFailedCreating dn (Inr True) \<in> set (deploy_trace E options w)"
  shows "(\<exists>cfn w0 w1 r w2.
            stackFailedCreating E cfn dn w0 = (Inr True, w1) \<and>
            cfn_deleteStack E cfn (deleteStackInput dn None) w1 = (r, w2) \<and>
            EvDeleteStack (deleteStackInput dn None) r \<in> set (deploy_trace E options w) \<and>
            (\<forall>i r'. EvDeleteStack i r' \<in> set (deploy_trace E options w) \<longrightarrow>
                   i = deleteStackInput dn None \<and> r' = r) \<and>
            (\<forall>n rw. EvWaitForStack n (Some False) rw \<in> set (deploy_trace E options w) \<longrightarrow>
                   r = Inr () \<and> n = dn \<and>
                   (\<exists>w3. waitForStack E cfn dn (Some False) w2 = (rw, w3))) \<and>
            (list_ex is_CreateChangeSet (deploy_trace E options w) \<longrightarrow>
               r = Inr () \<and> list_ex is_WaitForStack (deploy_trace E options w))) \<and>
         precedes is_DeleteStack is_WaitForStack (deploy_trace E options w) \<and>
         precedes is_DeleteStack is_CreateChangeSet (deploy_trace E options w) \<and>
         precedes is_WaitForStack is_CreateChangeSet (deploy_trace E options w) \<and>
         (list_ex is_CreateChangeSet (deploy_trace E options w) \<longrightarrow>
            EvDeleteStack (deleteStackInput dn None) (Inr ()) \<in> set (deploy_trace E options w) \<and>
            (EvWaitForStack dn (Some False) (Inr None) \<in> set (deploy_trace E options w) \<or>
             (\<exists>d. StackStatus d = ''DELETE_COMPLETE'' \<and>
                  EvWaitForStack dn (Some False) (Inr (Some d)) \<in> set (deploy_trace E options w)))) \<and>
         (\<forall>d. EvWaitForStack dn (Some False) (Inr (Some d)) \<in> set (deploy_trace E options w) \<longrightarrow>
              StackStatus d \<noteq> ''DELETE_COMPLETE'' \<longrightarrow>
              deploy_result E options w = Inl (Error (failed_deleting_message dn (StackStatus d))) \<and>
              \<not> list_ex is_CreateChangeSet (deploy_trace E options w))"
proof -
  have "wp (deployStack E options)
          (\<lambda>r0 w' tr. EvStackFailedCreating dn (Inr True) \<in> set tr \<longrightarrow>
         (\<exists>cfn w0 w1 r w2.
            stackFailedCreating E cfn dn w0 = (Inr True, w1) \<and>
            cfn_deleteStack E cfn (deleteStackInput dn None) w1 = (r, w2) \<and>
            EvDeleteStack (deleteStackInput dn None) r \<in> set tr \<and>
            (\<forall>i r'. EvDeleteStack i r' \<in> set tr \<longrightarrow>
                   i = deleteStackInput dn None \<and> r' = r) \<and>
            (\<forall>n rw. EvWaitForStack n (Some False) rw \<in> set tr \<longrightarrow>
                   r = Inr () \<and> n = dn \<and>
                   (\<exists>w3. waitForStack E cfn dn (Some False) w2 = (rw, w3))) \<and>
            (list_ex is_CreateChangeSet tr \<longrightarrow>
               r = Inr () \<and> list_ex is_WaitForStack tr)) \<and>
         precedes is_DeleteStack is_WaitForStack tr \<and>
         precedes is_DeleteStack is_CreateChangeSet tr \<and>
         precedes is_WaitForStack is_CreateChangeSet tr \<and>
         (list_ex is_CreateChangeSet tr \<longrightarrow>
            EvDeleteStack (deleteStackInput dn None) (Inr ()) \<in> set tr \<and>
            (EvWaitForStack dn (Some False) (Inr None) \<in> set tr \<or>
             (\<exists>d. StackStatus d = ''DELETE_COMPLETE'' \<and>
                  EvWaitForStack dn (Some False) (Inr (Some d)) \<in> set tr))) \<and>
         (\<forall>d. EvWaitForStack dn (Some False) (Inr (Some d)) \<in> set tr \<longrightarrow>
              StackStatus d \<noteq> ''DELETE_COMPLETE'' \<longrightarrow>
              r0 = Inl (Error (failed_deleting_message dn (StackStatus d))) \<and>
              \<not> list_ex is_CreateChangeSet tr)) w []"
    unfolding deploy_defs by ((intro wp_rules; auto); blast)
  from wp_deploy [OF this] assms show ?thesis by (rule mp)
qed

theorem deployStack_deletes_failed_stack_first_witness:
  "EvStackFailedCreating ''demo'' (Inr True)
     \<in> set (deploy_trace (scripted sc_stuck) demo_options Map.empty) \<and>
   EvDeleteStack (deleteStackInput ''demo'' None) (Inr ())
     \<in> set (deploy_trace (scripted sc_stuck) demo_options Map.empty) \<and>
   EvWaitForStack ''demo'' (Some False) (Inr (Some (stack_in ''DELETE_FAILED'')))
     \<in> set (deploy_trace (scripted sc_stuck) demo_options Map.empty) \<and>
   deploy_result (scripted sc_stuck) demo_options Map.empty =
     Inl (Error (failed_deleting_message ''demo'' ''DELETE_FAILED'')) \<and>
   \<not> list_ex is_CreateChangeSet (deploy_trace (scripted sc_stuck) demo_options Map.empty) \<and>
   stackFailedCreating (scripted sc_stuck) () ''demo'' Map.empty = (Inr True, Map.empty) \<and>
   cfn_deleteStack (scripted sc_stuck) () (deleteStackInput ''demo'' None) Map.empty =
     (Inr (), Map.empty) \<and>
   waitForStack (scripted sc_stuck) () ''demo'' (Some False) Map.empty =
     (Inr (Some (stack_in ''DELETE_FAILED'')), Map.empty)"
proof -
  have h: "EvStackFailedCreating ''demo'' (Inr True)
             \<in> set (deploy_trace (scripted sc_stuck) demo_options Map.empty)"
    by (simp add: run_defs sc_stuck_def sc_create_def LARGE_TEMPLATE_SIZE_KB_def)
  have d: "EvDeleteStack (deleteStackInput ''demo'' None) (Inr ())
             \<in> set (deploy_trace (scripted sc_stuck) demo_options Map.empty)"
    by (simp add: run_defs sc_stuck_def sc_create_def LARGE_TEMPLATE_SIZE_KB_def)
  have v: "EvWaitForStack ''demo'' (Some False) (Inr (Some (stack_in ''DELETE_FAILED'')))
             \<in> set (deploy_trace (scripted sc_stuck) demo_options Map.empty)"
    by (simp add: run_defs sc_stuck_def sc_create_def LARGE_TEMPLATE_SIZE_KB_def)
  have s: "StackStatus (stack_in ''DELETE_FAILED'') \<noteq> ''DELETE_COMPLETE''"
    by (simp add: stack_in_def)
  from deployStack_deletes_failed_stack_first [OF h] v s
  have "deploy_result (scripted sc_stuck) demo_options Map.empty =
          Inl (Error (failed_deleting_message ''demo'' (StackStatus (stack_in ''DELETE_FAILED'')))) \<and>
        \<not> list_ex is_CreateChangeSet (deploy_trace (scripted sc_stuck) demo_options Map.empty)"
    by blast
  moreover have
    "stackFailedCreating (scripted sc_stuck) () ''demo'' Map.empty = (Inr True, Map.empty) \<and>
     cfn_deleteStack (scripted sc_stuck) () (deleteStackInput ''demo'' None) Map.empty =
       (Inr (), Map.empty) \<and>
     waitForStack (scripted sc_stuck) () ''demo'' (Some False) Map.empty =
       (Inr (Some (stack_in ''DELETE_FAILED'')), Map.empty)"
    by (simp add: scripted_def sc_stuck_def sc_create_def)
  ultimately show ?thesis using h d v by (simp add: stack_in_def)
qed

section \<open>deployStack: an empty change set\<close>




section \<open>deployStack: the size of an inline template\<close>

text \<open>
  C3, as the code has it. Take a run without \<open>toolkitInfo\<close> that has obtained its
  client (so the stack has an environment and \<open>prepareAssets\<close> succeeded) and whose
  template serializes to \<open>t\<close>. If \<open>t\<close> has more than 50 * 1024 characters, and so more
  than 50 * 1024 bytes, the run logs the remediation text and throws
  \<open>Template too large to deploy ("cdk bootstrap" is required)\<close>, and its trace has no
  control-plane call. If \<open>t\<close> has at most 50 * 1024 bytes, \<open>makeBodyParameter\<close> returns
  \<open>t\<close> as \<open>TemplateBody\<close> with no \<open>TemplateURL\<close> and logs nothing, the run goes on to
  ask \<open>stackFailedCreating\<close>, and every \<open>createChangeSet\<close> request carries \<open>t\<close> as
  \<open>TemplateBody\<close>. Nothing is said of a template of at most 50 * 1024 characters that
  takes more than 50 * 1024 bytes.
\<close>

theorem deployStack_template_size:
  assumes "toolkitInfo options = None"
    and "YAML_safeDump E (template (stack options)) = Inr t"
    and "EvCloudFormation env ForWriting None \<in> set (deploy_trace E options w)"
  shows "(50 * 1024 < length t \<longrightarrow>
      50 * 1024 < utf8_length t \<and>
      deploy_result E options w = Inl (Error template_too_large) \<and>
      \<not> list_ex control_plane_call (deploy_trace E options w) \<and>
      EvLogError (too_large_log (colors_blue E) (name (stack options)) (length t) (env_name env))
        \<in> set (deploy_trace E options w)) \<and>
     (utf8_length t \<le> 50 * 1024 \<longrightarrow>
      (\<forall>w0 tr0. makeBodyParameter E (stack options) (toolkitInfo options) (w0, tr0) =
                  (Inr \<lparr>TemplateBody = Some t, TemplateURL = None\<rparr>, w0, tr0)) \<and>
      \<not> list_ex is_LogError (deploy_trace E options w) \<and>
      (\<exists>r cfn w1 w2.
          stackFailedCreating E cfn (js_or (deployName options) (name (stack options))) w1 = (r, w2) \<and>
          EvStackFailedCreating (js_or (deployName options) (name (stack options))) r \<in> set (deploy_trace E options w)) \<and>
      (\<forall>req rr. EvCreateChangeSet req rr \<in> set (deploy_trace E options w) \<longrightarrow>
         cs_TemplateBody req = Some t \<and> cs_TemplateURL req = None))"
proof -
  have le: "length t \<le> utf8_length t"
    by (rule length_le_utf8_length)
  have "wp (deployStack E options)
          (\<lambda>r w' tr. EvCloudFormation env ForWriting None \<in> set tr \<longrightarrow>
     (50 * 1024 < length t \<longrightarrow>
      r = Inl (Error template_too_large) \<and>
      \<not> list_ex control_plane_call tr \<and>
      EvLogError (too_large_log (colors_blue E) (name (stack options)) (length t) (env_name env))
        \<in> set tr) \<and>
     (length t \<le> 50 * 1024 \<longrightarrow>
      \<not> list_ex is_LogError tr \<and>
      (\<exists>r cfn w1 w2.
          stackFailedCreating E cfn (js_or (deployName options) (name (stack options))) w1 = (r, w2) \<and>
          EvStackFailedCreating (js_or (deployName options) (name (stack options))) r \<in> set tr) \<and>
      (\<forall>req rr. EvCreateChangeSet req rr \<in> set tr \<longrightarrow>
         cs_TemplateBody req = Some t \<and> cs_TemplateURL req = None))) w []"
    unfolding deploy_defs using assms(1,2)
    by (intro wp_rules)
       (auto simp: changeSetRequest_simps LARGE_TEMPLATE_SIZE_KB_def failure_def
             split: sum.splits)
  from wp_deploy [OF this] assms(3) have main:
    "(50 * 1024 < length t \<longrightarrow>
      deploy_result E options w = Inl (Error template_too_large) \<and>
      \<not> list_ex control_plane_call (deploy_trace E options w) \<and>
      EvLogError (too_large_log (colors_blue E) (name (stack options)) (length t) (env_name env))
        \<in> set (deploy_trace E options w)) \<and>
     (length t \<le> 50 * 1024 \<longrightarrow>
      \<not> list_ex is_LogError (deploy_trace E options w) \<and>
      (\<exists>r cfn w1 w2.
          stackFailedCreating E cfn (js_or (deployName options) (name (stack options))) w1 = (r, w2) \<and>
          EvStackFailedCreating (js_or (deployName options) (name (stack options))) r \<in> set (deploy_trace E options w)) \<and>
      (\<forall>req rr. EvCreateChangeSet req rr \<in> set (deploy_trace E options w) \<longrightarrow>
         cs_TemplateBody req = Some t \<and> cs_TemplateURL req = None))"
    by (rule mp)
  have inline: "(\<forall>w0 tr0. makeBodyParameter E (stack options) (toolkitInfo options) (w0, tr0) =
                  (Inr \<lparr>TemplateBody = Some t, TemplateURL = None\<rparr>, w0, tr0))"
    if "length t \<le> 50 * 1024"
    using that assms(1,2) by (simp add: makeBodyParameter_def LARGE_TEMPLATE_SIZE_KB_def ret_def)
  show ?thesis
  proof (rule conjI; rule impI)
    assume g: "50 * 1024 < length t"
    from g le have u: "50 * 1024 < utf8_length t" by simp
    from main [THEN conjunct1] g have
      "deploy_result E options w = Inl (Error template_too_large) \<and>
      \<not> list_ex control_plane_call (deploy_trace E options w) \<and>
      EvLogError (too_large_log (colors_blue E) (name (stack options)) (length t) (env_name env))
        \<in> set (deploy_trace E options w)"
      by (rule mp)
    with u show "50 * 1024 < utf8_length t \<and>
      deploy_result E options w = Inl (Error template_too_large) \<and>
      \<not> list_ex control_plane_call (deploy_trace E options w) \<and>
      EvLogError (too_large_log (colors_blue E) (name (stack options)) (length t) (env_name env))
        \<in> set (deploy_trace E options w)"
      by (rule conjI)
  next
    assume "utf8_length t \<le> 50 * 1024"
    with le have l: "length t \<le> 50 * 1024" by simp
    from main [THEN conjunct2] l have
      "\<not> list_ex is_LogError (deploy_trace E options w) \<and>
      (\<exists>r cfn w1 w2.
          stackFailedCreating E cfn (js_or (deployName options) (name (stack options))) w1 = (r, w2) \<and>
          EvStackFailedCreating (js_or (deployName options) (name (stack options))) r \<in> set (deploy_trace E options w)) \<and>
      (\<forall>req rr. EvCreateChangeSet req rr \<in> set (deploy_trace E options w) \<longrightarrow>
         cs_TemplateBody req = Some t \<and> cs_TemplateURL req = None)"
      by (rule mp)
    with inline [OF l] show "(\<forall>w0 tr0. makeBodyParameter E (stack options) (toolkitInfo options) (w0, tr0) =
                  (Inr \<lparr>TemplateBody = Some t, TemplateURL = None\<rparr>, w0, tr0)) \<and>
      \<not> list_ex is_LogError (deploy_trace E options w) \<and>
      (\<exists>r cfn w1 w2.
          stackFailedCreating E cfn (js_or (deployName options) (name (stack options))) w1 = (r, w2) \<and>
          EvStackFailedCreating (js_or (deployName options) (name (stack options))) r \<in> set (deploy_trace E options w)) \<and>
      (\<forall>req rr. EvCreateChangeSet req rr \<in> set (deploy_trace E options w) \<longrightarrow>
         cs_TemplateBody req = Some t \<and> cs_TemplateURL req = None)"
      by (rule conjI)
  qed
qed

theorem deployStack_template_size_witness:
  "(toolkitInfo demo_options = None \<and>
    YAML_safeDump (scripted sc_large) (template (stack demo_options)) =
      Inr (replicate 51201 (CHR ''a'')) \<and>
    EvCloudFormation demo_env ForWriting None
      \<in> set (deploy_trace (scripted sc_large) demo_options Map.empty) \<and>
    50 * 1024 < length (replicate 51201 (CHR ''a'')) \<and>
    50 * 1024 < utf8_length (replicate 51201 (CHR ''a'')) \<and>
    deploy_result (scripted sc_large) demo_options Map.empty = Inl (Error template_too_large) \<and>
    \<not> list_ex control_plane_call (deploy_trace (scripted sc_large) demo_options Map.empty) \<and>
    EvLogError (too_large_log (colors_blue (scripted sc_large)) (name (stack demo_options))
                  (length (replicate 51201 (CHR ''a''))) (env_name demo_env))
      \<in> set (deploy_trace (scripted sc_large) demo_options Map.empty)) \<and>
   (toolkitInfo demo_options = None \<and>
    YAML_safeDump (scripted sc_threshold) (template (stack demo_options)) =
      Inr (replicate 51200 (CHR ''a'')) \<and>
    EvCloudFormation demo_env ForWriting None
      \<in> set (deploy_trace (scripted sc_threshold) demo_options Map.empty) \<and>
    utf8_length (replicate 51200 (CHR ''a'')) \<le> 50 * 1024 \<and>
    (\<forall>w0 tr0. makeBodyParameter (scripted sc_threshold) (stack demo_options)
                 (toolkitInfo demo_options) (w0, tr0) =
               (Inr \<lparr>TemplateBody = Some (replicate 51200 (CHR ''a'')), TemplateURL = None\<rparr>,
                w0, tr0)) \<and>
    \<not> list_ex is_LogError (deploy_trace (scripted sc_threshold) demo_options Map.empty) \<and>
    EvCreateChangeSet
      (changeSetRequest ''demo'' ''4f1d'' False
         \<lparr>TemplateBody = Some (replicate 51200 (CHR ''a'')), TemplateURL = None\<rparr> [] None)
      (Inr \<lparr>Id = Some ''cs-1'', StackId = Some ''arn:demo''\<rparr>)
      \<in> set (deploy_trace (scripted sc_threshold) demo_options Map.empty))"
proof -
  have a: "toolkitInfo demo_options = None"
    by (simp add: demo_options_def)
  have b: "YAML_safeDump (scripted sc_large) (template (stack demo_options)) =
             Inr (replicate 51201 (CHR ''a''))"
    by (simp add: scripted_def sc_large_def)
  have c: "EvCloudFormation demo_env ForWriting None
             \<in> set (deploy_trace (scripted sc_large) demo_options Map.empty)"
    by (simp add: run_defs sc_large_def sc_create_def LARGE_TEMPLATE_SIZE_KB_def)
  have d: "50 * 1024 < length (replicate 51201 (CHR ''a''))"
    by simp
  have b': "YAML_safeDump (scripted sc_threshold) (template (stack demo_options)) =
              Inr (replicate 51200 (CHR ''a''))"
    by (simp add: scripted_def sc_threshold_def)
  have c': "EvCloudFormation demo_env ForWriting None
              \<in> set (deploy_trace (scripted sc_threshold) demo_options Map.empty)"
    by (simp add: run_defs sc_threshold_def sc_create_def LARGE_TEMPLATE_SIZE_KB_def)
  have d': "utf8_length (replicate 51200 (CHR ''a'')) \<le> 50 * 1024"
    by (simp add: utf8_length_replicate)
  have e': "EvCreateChangeSet
      (changeSetRequest ''demo'' ''4f1d'' False
         \<lparr>TemplateBody = Some (replicate 51200 (CHR ''a'')), TemplateURL = None\<rparr> [] None)
      (Inr \<lparr>Id = Some ''cs-1'', StackId = Some ''arn:demo''\<rparr>)
      \<in> set (deploy_trace (scripted sc_threshold) demo_options Map.empty)"
    by (simp add: run_defs sc_threshold_def sc_create_def LARGE_TEMPLATE_SIZE_KB_def)
  note x = mp [OF deployStack_template_size [OF a b c, THEN conjunct1] d]
  note y = mp [OF deployStack_template_size [OF a b' c', THEN conjunct2] d']
  note y1 = y [THEN conjunct1]
  note y2 = y [THEN conjunct2, THEN conjunct1]
  show ?thesis
    by (rule conjI [OF conjI [OF a conjI [OF b conjI [OF c conjI [OF d x]]]]
                       conjI [OF a conjI [OF b' conjI [OF c' conjI [OF d'
                         conjI [OF y1 conjI [OF y2 e']]]]]]])
qed

text \<open>
  C3 as stated fails for a stack without an environment: there is no \<open>toolkitInfo\<close> and
  the template serializes to 51201 characters of one byte each, but the run ends at the
  first check of \<open>deployStack\<close>, with the error about the environment.
\<close>

theorem deployStack_template_size_counterexample:
  "toolkitInfo noenv_options = None \<and>
   YAML_safeDump (scripted sc_large) (template (stack noenv_options)) =
     Inr (replicate 51201 (CHR ''a'')) \<and>
   50 * 1024 < utf8_length (replicate 51201 (CHR ''a'')) \<and>
   deploy_result (scripted sc_large) noenv_options Map.empty =
     Inl (Error ''The stack demo does not have an environment'') \<and>
   deploy_result (scripted sc_large) noenv_options Map.empty \<noteq> Inl (Error template_too_large)"
  by (simp add: run_defs noenv_options_def sc_large_def sc_create_def
        no_environment_message_def template_too_large_def utf8_length_replicate)

text \<open>
  The code compares the number of characters, not of bytes: a template of 30000
  characters that take 60000 bytes is sent inline.
\<close>

lemma deployStack_two_byte_run:
  "length (replicate 30000 (CHR 0xE9)) = 30000 \<and>
   utf8_length (replicate 30000 (CHR 0xE9)) = 60000 \<and>
   EvCreateChangeSet
     (changeSetRequest ''demo'' ''4f1d'' False
        \<lparr>TemplateBody = Some (replicate 30000 (CHR 0xE9)), TemplateURL = None\<rparr> [] None)
     (Inr \<lparr>Id = Some ''cs-1'', StackId = Some ''arn:demo''\<rparr>)
     \<in> set (deploy_trace (scripted sc_two_byte) demo_options Map.empty)"
  by (simp add: run_defs sc_two_byte_def sc_create_def LARGE_TEMPLATE_SIZE_KB_def
        utf8_length_replicate)

section \<open>deployStack: the activity monitor\<close>

text \<open>
  C8, as the code has it. In a run that is not quiet and whose \<open>executeChangeSet\<close> call
  succeeded, the monitor is started after that call and before the wait for the terminal
  status, and the monitor's stop comes after that wait; when the wait returns, the monitor
  is stopped.
\<close>

theorem deployStack_monitor_order:
  assumes "\<not> truthy (quiet options)"
    and "EvExecuteChangeSet dn csn (Inr ()) \<in> set (deploy_trace E options w)"
  shows "precedes is_ExecuteChangeSet is_MonitorStart (deploy_trace E options w) \<and>
         list_ex is_MonitorStart (deploy_trace E options w) \<and>
         precedes is_MonitorStart is_final_wait (deploy_trace E options w) \<and>
         list_ex is_final_wait (deploy_trace E options w) \<and>
         precedes is_final_wait is_MonitorStop (deploy_trace E options w) \<and>
         (\<forall>s. EvWaitForStack dn None (Inr s) \<in> set (deploy_trace E options w) \<longrightarrow>
              list_ex is_MonitorStop (deploy_trace E options w))"
proof -
  have "wp (deployStack E options)
          (\<lambda>r w' tr. EvExecuteChangeSet dn csn (Inr ()) \<in> set tr \<longrightarrow>
             precedes is_ExecuteChangeSet is_MonitorStart tr \<and>
             list_ex is_MonitorStart tr \<and>
             precedes is_MonitorStart is_final_wait tr \<and>
             list_ex is_final_wait tr \<and>
             precedes is_final_wait is_MonitorStop tr \<and>
             (\<forall>s. EvWaitForStack dn None (Inr s) \<in> set tr \<longrightarrow> list_ex is_MonitorStop tr)) w []"
    unfolding deploy_defs using assms(1) by (intro wp_rules) auto
  from wp_deploy [OF this] assms(2) show ?thesis by simp
qed

theorem deployStack_monitor_order_witness:
  "\<not> truthy (quiet demo_options) \<and>
   EvExecuteChangeSet ''demo'' (changeSetName_of ''4f1d'') (Inr ())
     \<in> set (deploy_trace (scripted sc_create) demo_options Map.empty) \<and>
   precedes is_ExecuteChangeSet is_MonitorStart
     (deploy_trace (scripted sc_create) demo_options Map.empty) \<and>
   list_ex is_MonitorStart (deploy_trace (scripted sc_create) demo_options Map.empty) \<and>
   precedes is_final_wait is_MonitorStop
     (deploy_trace (scripted sc_create) demo_options Map.empty)"
proof -
  have q: "\<not> truthy (quiet demo_options)"
    by (simp add: truthy_def demo_options_def)
  have h: "EvExecuteChangeSet ''demo'' (changeSetName_of ''4f1d'') (Inr ())
             \<in> set (deploy_trace (scripted sc_create) demo_options Map.empty)"
    by (simp add: run_defs sc_create_def LARGE_TEMPLATE_SIZE_KB_def)
  from deployStack_monitor_order [OF q h] q h show ?thesis by simp
qed

text \<open>
  C8 as stated fails on the plain run that creates the demo stack: the run is not quiet
  and executes its change set, and \<open>executeChangeSet\<close> is called before the monitor is
  started.
\<close>

theorem deployStack_monitor_order_counterexample:
  "\<not> truthy (quiet demo_options) \<and>
   deploy_trace (scripted sc_create) demo_options Map.empty =
     [EvPrepareAssets (Inr []),
      EvUuid ''4f1d'',
      EvCloudFormation demo_env ForWriting None,
      EvStackFailedCreating ''demo'' (Inr False),
      EvStackExists ''demo'' (Inr False),
      EvCreateChangeSet
        (changeSetRequest ''demo'' ''4f1d'' False
           \<lparr>TemplateBody = Some ''Resources: {}'', TemplateURL = None\<rparr> [] None)
        (Inr \<lparr>Id = Some ''cs-1'', StackId = Some ''arn:demo''\<rparr>),
      EvWaitForChangeSet ''demo'' ''CDK-4f1d'' (Inr (Some \<lparr>Changes = Some [JObject []]\<rparr>)),
      EvExecuteChangeSet ''demo'' ''CDK-4f1d'' (Inr ()),
      EvMonitorStart ''demo'' (Some (JObject [])) (Some 1),
      EvWaitForStack ''demo'' None (Inr (Some (stack_in ''CREATE_COMPLETE''))),
      EvMonitorStop,
      EvDescribeStack ''demo'' (Inr (Some (stack_in ''CREATE_COMPLETE'')))] \<and>
   list_ex is_ExecuteChangeSet (deploy_trace (scripted sc_create) demo_options Map.empty) \<and>
   \<not> precedes is_MonitorStart is_ExecuteChangeSet
       (deploy_trace (scripted sc_create) demo_options Map.empty)"
  by (simp add: run_defs sc_create_def LARGE_TEMPLATE_SIZE_KB_def changeSetName_of_def)

text \<open>
  When the wait for the terminal status is rejected, the run ends with that error and the
  monitor it started is not stopped.
\<close>

lemma deployStack_wait_error_skips_stop:
  assumes "EvWaitForStack dn None (Inl e) \<in> set (deploy_trace E options w)"
  shows "deploy_result E options w = Inl e \<and>
         \<not> list_ex is_MonitorStop (deploy_trace E options w)"
proof -
  have "wp (deployStack E options)
          (\<lambda>r w' tr. EvWaitForStack dn None (Inl e) \<in> set tr \<longrightarrow>
             r = Inl e \<and> \<not> list_ex is_MonitorStop tr) w []"
    unfolding deploy_defs by (intro wp_rules) auto
  from wp_deploy [OF this] assms show ?thesis by simp
qed

lemma deployStack_wait_error_run:
  "list_ex is_MonitorStart (deploy_trace (scripted sc_wait_fails) demo_options Map.empty) \<and>
   \<not> list_ex is_MonitorStop (deploy_trace (scripted sc_wait_fails) demo_options Map.empty) \<and>
   deploy_result (scripted sc_wait_fails) demo_options Map.empty =
     Inl (Error ''Stack demo failed'')"
  by (simp add: run_defs sc_wait_fails_def sc_create_def LARGE_TEMPLATE_SIZE_KB_def)

section \<open>Quiet mode\<close>

lemma deployStack_quiet_run:
  "wp (deployStack E options)
     (\<lambda>r w' tr. deployStack E (options\<lparr>quiet := Some True\<rparr>) (w, []) =
                   (r, w', filter functional tr)) w []"
  unfolding deploy_defs
  by (intro wp_rules)
     (simp_all add: functional_def truthy_def bnd_def call_def fresh_def emit_def ret_def
        throw_def)

lemma destroyStack_quiet_run:
  "wp (destroyStack E options)
     (\<lambda>r w' tr. destroyStack E (options\<lparr>quiet := Some True\<rparr>) (w, []) =
                   (r, w', filter functional tr)) w []"
  unfolding destroy_defs
  by (intro wp_rules)
     (simp_all add: functional_def truthy_def bnd_def call_def fresh_def emit_def ret_def
        throw_def)

lemma deployStack_quiet_canonical:
  "deploy_result E (options\<lparr>quiet := q\<rparr>) w = deploy_result E (options\<lparr>quiet := Some True\<rparr>) w \<and>
   deploy_world E (options\<lparr>quiet := q\<rparr>) w = deploy_world E (options\<lparr>quiet := Some True\<rparr>) w \<and>
   filter functional (deploy_trace E (options\<lparr>quiet := q\<rparr>) w) =
     deploy_trace E (options\<lparr>quiet := Some True\<rparr>) w"
  using wp_deploy [OF deployStack_quiet_run [where E = E and options = "options\<lparr>quiet := q\<rparr>" and w = w]]
  by (simp add: deploy_result_def deploy_world_def deploy_trace_def)

lemma destroyStack_quiet_canonical:
  "destroy_result E (options\<lparr>quiet := q\<rparr>) w = destroy_result E (options\<lparr>quiet := Some True\<rparr>) w \<and>
   destroy_world E (options\<lparr>quiet := q\<rparr>) w = destroy_world E (options\<lparr>quiet := Some True\<rparr>) w \<and>
   filter functional (destroy_trace E (options\<lparr>quiet := q\<rparr>) w) =
     destroy_trace E (options\<lparr>quiet := Some True\<rparr>) w"
  using wp_destroy [OF destroyStack_quiet_run [where E = E and options = "options\<lparr>quiet := q\<rparr>" and w = w]]
  by (simp add: destroy_result_def destroy_world_def destroy_trace_def)

text \<open>
  C9. Two calls of \<open>deployStack\<close>, or of \<open>destroyStack\<close>, that differ only in the
  \<open>quiet\<close> flag and start from the same world with the same collaborators end with the
  same outcome (the same result or the same thrown error), leave the same world, and make
  the same calls in the same order, the events of the activity monitor apart.
\<close>

theorem quiet_changes_only_the_monitor:
  "deploy_result E (options\<lparr>quiet := q1\<rparr>) w = deploy_result E (options\<lparr>quiet := q2\<rparr>) w \<and>
   deploy_world E (options\<lparr>quiet := q1\<rparr>) w = deploy_world E (options\<lparr>quiet := q2\<rparr>) w \<and>
   filter functional (deploy_trace E (options\<lparr>quiet := q1\<rparr>) w) =
     filter functional (deploy_trace E (options\<lparr>quiet := q2\<rparr>) w) \<and>
   destroy_result E' (doptions\<lparr>quiet := q1\<rparr>) w' = destroy_result E' (doptions\<lparr>quiet := q2\<rparr>) w' \<and>
   destroy_world E' (doptions\<lparr>quiet := q1\<rparr>) w' = destroy_world E' (doptions\<lparr>quiet := q2\<rparr>) w' \<and>
   filter functional (destroy_trace E' (doptions\<lparr>quiet := q1\<rparr>) w') =
     filter functional (destroy_trace E' (doptions\<lparr>quiet := q2\<rparr>) w')"
  using deployStack_quiet_canonical [where E = E and options = options and q = q1 and w = w]
        deployStack_quiet_canonical [where E = E and options = options and q = q2 and w = w]
        destroyStack_quiet_canonical [where E = E' and options = doptions and q = q1 and w = w']
        destroyStack_quiet_canonical [where E = E' and options = doptions and q = q2 and w = w']
  by simp

theorem quiet_changes_only_the_monitor_witness:
  "deploy_result (scripted sc_create) (demo_options\<lparr>quiet := None\<rparr>) Map.empty =
     deploy_result (scripted sc_create) (demo_options\<lparr>quiet := Some True\<rparr>) Map.empty \<and>
   list_ex is_MonitorStart (deploy_trace (scripted sc_create) (demo_options\<lparr>quiet := None\<rparr>) Map.empty) \<and>
   \<not> list_ex is_MonitorStart
       (deploy_trace (scripted sc_create) (demo_options\<lparr>quiet := Some True\<rparr>) Map.empty)"
proof -
  have a: "list_ex is_MonitorStart
             (deploy_trace (scripted sc_create) (demo_options\<lparr>quiet := None\<rparr>) Map.empty)"
    by (simp add: run_defs sc_create_def LARGE_TEMPLATE_SIZE_KB_def)
  have b: "\<not> list_ex is_MonitorStart
             (deploy_trace (scripted sc_create) (demo_options\<lparr>quiet := Some True\<rparr>) Map.empty)"
    by (simp add: run_defs sc_create_def LARGE_TEMPLATE_SIZE_KB_def)
  from quiet_changes_only_the_monitor
         [where E = "scripted sc_create" and options = demo_options and ?q1.0 = None
            and w = Map.empty and ?q2.0 = "Some True" and E' = "scripted sc_create"
            and doptions = demo_destroy and w' = Map.empty]
       a b
  show ?thesis by simp
qed

end
